theory Spec2Isabelle
  imports Main
begin

section \<open>The docker:nix builder: data model\<close>

text \<open>
  The repository holds two versions of \<open>DockerNixBuilder.Build\<close>:
  \<^item> \<open>src/pkg/build/docker_nix.go\<close>: one load attempt after a 100 ms sleep, with the
    tarball closed by a deferred call (below \<open>Build_docker_nix\<close>);
  \<^item> \<open>src/unnamed/part_000\<close>: a loop of two load attempts with a one second sleep
    between them (below \<open>Build_part_000\<close>).
  Lines 35 to 86 are the same in both files.

  Everything outside the function (the host architecture, the container client, the
  \<open>nix\<close> subprocess, the file system, the helpers \<open>docker.PipeOutput\<close> and
  \<open>docker.GetImageID\<close>) is a field of the record \<open>world\<close>: what each call answers.
  The calls the function makes are recorded, in order, in the \<open>trace\<close> of the state.
\<close>

type_synonym addr = nat
type_synonym handle = nat

text \<open>\<open>DockerNixBuilderConfig\<close>, lines 22 to 26.\<close>

record DockerNixBuilderConfig =
  Enabled :: bool
  Name :: string
  System :: string

text \<open>
  The interface value \<open>in.BuildConfig\<close>: either a \<open>*DockerNixBuilderConfig\<close> (a pointer
  into the heap, \<open>None\<close> for the nil pointer) or a value of another dynamic type, kept
  as the text that \<open>%T\<close> prints for it.
\<close>

datatype BuildConfig =
    DockerNixBuilderConfigPtr "addr option"
  | OtherBuildConfig string

text \<open>The fields of \<open>api.BuildInput\<close> that \<open>Build\<close> reads.\<close>

record BuildInput =
  BuildConfig :: BuildConfig
  TestPlan :: string
  PlanDir :: string

record BuildOutput =
  ArtifactPath :: string

text \<open>
  Go errors. \<open>ExitError s e\<close> is an \<open>*exec.ExitError\<close> whose process state prints as
  \<open>s\<close> and whose \<open>Stderr\<close> field holds \<open>e\<close>; \<open>WrapError m e\<close> is what \<open>fmt.Errorf\<close>
  with a \<open>%w\<close> verb returns: the formatted message \<open>m\<close> and the wrapped error \<open>e\<close>.
\<close>

datatype go_error =
    ExitError string string
  | ErrorString string
  | WrapError string go_error

fun Error :: "go_error \<Rightarrow> string" where
  "Error (ExitError s e) = s"
| "Error (ErrorString m) = m"
| "Error (WrapError m e) = m"

fun Unwrap :: "go_error \<Rightarrow> go_error option" where
  "Unwrap (WrapError m e) = Some e"
| "Unwrap (ExitError s e) = None"
| "Unwrap (ErrorString m) = None"

fun Stderr :: "go_error \<Rightarrow> string option" where
  "Stderr (ExitError s e) = Some e"
| "Stderr (ErrorString m) = None"
| "Stderr (WrapError m e) = None"

text \<open>\<open>fmt.Errorf(msg + "%w", err)\<close>.\<close>

definition Errorf_w :: "string \<Rightarrow> go_error \<Rightarrow> go_error" where
  "Errorf_w msg err = WrapError (msg @ Error err) err"

text \<open>What \<open>Build\<close> gives back: a panic, or the pair \<open>(*api.BuildOutput, error)\<close>.\<close>

datatype outcome =
    Panic string
  | Return "BuildOutput option" "go_error option"

datatype event =
    EvNewClient
  | EvInfow string "(string \<times> string) list"
  | EvErrorw string "(string \<times> string) list"
  | EvExec "string list"
  | EvSleep nat
  | EvOpen string
  | EvClose handle
  | EvImageLoad handle
  | EvPipeOutput string
  | EvGetImageID string
  | EvImageTag string string

text \<open>
  The answers of the environment. The load calls are indexed by the attempt
  (\<open>0\<close> for the first), so that an attempt may fail and the next succeed.
  \<open>os_Open w i path = None\<close> means the file opened; the handle is then \<open>i\<close>.
  \<open>took\<close> is the printed duration of the log line at the end of the load stage.
\<close>

record world =
  GOARCH :: string
  NewClientWithOpts :: "go_error option"
  cmd_Output :: "string list \<Rightarrow> go_error + string"
  os_Open :: "nat \<Rightarrow> string \<Rightarrow> go_error option"
  ImageLoad :: "nat \<Rightarrow> handle \<Rightarrow> go_error + string"
  PipeOutput :: "nat \<Rightarrow> string \<Rightarrow> go_error + string"
  GetImageID :: "string \<Rightarrow> go_error + string"
  ImageTag :: "string \<Rightarrow> string \<Rightarrow> go_error option"
  took :: string

text \<open>
  The state of a run: the configuration objects by address, the calls made so far, and
  the file handles opened by the run and not closed.
\<close>

record state =
  heap :: "addr \<Rightarrow> DockerNixBuilderConfig"
  trace :: "event list"
  open_files :: "handle list"

definition init :: "(addr \<Rightarrow> DockerNixBuilderConfig) \<Rightarrow> state" where
  "init h = \<lparr>heap = h, trace = [], open_files = []\<rparr>"

definition emit :: "event \<Rightarrow> state \<Rightarrow> state" where
  "emit ev st = st\<lparr>trace := trace st @ [ev]\<rparr>"

section \<open>Strings\<close>

text \<open>
  \<open>strings.HasPrefix\<close>, \<open>strings.TrimPrefix\<close> and \<open>strings.TrimRight\<close> of the Go
  library, on byte strings. The cutset used is \<open>"\r\n"\<close>, two ASCII bytes, so trimming
  byte by byte is what the library does.
\<close>

definition HasPrefix :: "string \<Rightarrow> string \<Rightarrow> bool" where
  "HasPrefix s p = (length p \<le> length s \<and> take (length p) s = p)"

definition TrimPrefix :: "string \<Rightarrow> string \<Rightarrow> string" where
  "TrimPrefix s p = (if HasPrefix s p then drop (length p) s else s)"

definition TrimRight :: "string \<Rightarrow> string \<Rightarrow> string" where
  "TrimRight s cutset = rev (dropWhile (\<lambda>c. c \<in> set cutset) (rev s))"

definition crlf :: string where
  "crlf = [CHR 0x0D, CHR 0x0A]"

section \<open>The function\<close>

subsection \<open>Lines 35 to 86, common to both files\<close>

text \<open>
  \<open>fill_default_configs\<close> is lines 51 to 64: the writes go through the pointer \<open>cfg\<close>,
  that is into the heap cell \<open>p\<close>. \<open>Inl\<close> is a return from \<open>Build\<close>.
\<close>

definition fill_default_configs :: "world \<Rightarrow> BuildInput \<Rightarrow> addr \<Rightarrow> state \<Rightarrow> outcome + state" where
  "fill_default_configs w inp p st =
     (case (if length (System (heap st p)) = 0 then
              (if GOARCH w = ''arm64'' then
                 Inr (st\<lparr>heap := (heap st)(p := (heap st p)\<lparr>System := ''aarch64-linux''\<rparr>)\<rparr>)
               else if GOARCH w = ''amd64'' then
                 Inr (st\<lparr>heap := (heap st)(p := (heap st p)\<lparr>System := ''x86_64-linux''\<rparr>)\<rparr>)
               else
                 Inl (Return None (Some (ErrorString (''unsupported architecture: '' @ GOARCH w)))))
            else Inr st) of
        Inl r \<Rightarrow> Inl r
      | Inr st1 \<Rightarrow>
          (if length (Name (heap st1 p)) = 0 then
             Inr (st1\<lparr>heap := (heap st1)(p := (heap st1 p)\<lparr>Name := TestPlan inp @ ''-image''\<rparr>)\<rparr>)
           else Inr st1))"

definition target :: "string \<Rightarrow> DockerNixBuilderConfig \<Rightarrow> string" where
  "target basesrc cfg = basesrc @ ''#legacyPackages.'' @ System cfg @ ''.'' @ Name cfg"

definition nix_argv :: "string \<Rightarrow> string list" where
  "nix_argv tgt = [''nix'', ''build'', tgt, ''--no-link'', ''--print-out-paths'']"

text \<open>Lines 66 to 86: the subprocess. \<open>Inr\<close> carries the trimmed path.\<close>

definition spawn_nix_build :: "world \<Rightarrow> string \<Rightarrow> addr \<Rightarrow> state \<Rightarrow> (outcome + string) \<times> state" where
  "spawn_nix_build w basesrc p st =
     (let tgt = target basesrc (heap st p);
          st1 = emit (EvInfow ''nix build'' [(''target'', tgt)]) st;
          st2 = emit (EvExec (nix_argv tgt)) st1
      in case cmd_Output w (nix_argv tgt) of
           Inl err \<Rightarrow>
             (let st3 = (case err of
                           ExitError s e \<Rightarrow> emit (EvErrorw ''nix build fail result'' [(''stderr'', e)]) st2
                         | ErrorString m \<Rightarrow> st2
                         | WrapError m e \<Rightarrow> st2)
              in (Inl (Return None (Some (Errorf_w ''nix build failed: '' err))), st3))
         | Inr stdout \<Rightarrow>
             (let path = TrimRight stdout crlf
              in (Inr path, emit (EvInfow ''nix build completed'' [(''path'', path)]) st2)))"

text \<open>Lines 35 to 86.\<close>

definition build_nix :: "world \<Rightarrow> BuildInput \<Rightarrow> state \<Rightarrow> (outcome + string) \<times> state" where
  "build_nix w inp st =
     (case BuildConfig inp of
        OtherBuildConfig T \<Rightarrow>
          (Inl (Return None (Some (ErrorString
             (''expected configuration type DockerNixBuilderConfig, was: '' @ T)))), st)
      | DockerNixBuilderConfigPtr cfg \<Rightarrow>
          (let basesrc = PlanDir inp;
               st1 = emit EvNewClient st
           in case NewClientWithOpts w of
                Some err \<Rightarrow> (Inl (Return None (Some err)), st1)
              | None \<Rightarrow>
                  (case cfg of
                     None \<Rightarrow> (Inl (Panic ''invalid memory address or nil pointer dereference''), st1)
                   | Some p \<Rightarrow>
                       (case fill_default_configs w inp p st1 of
                          Inl r \<Rightarrow> (Inl r, st1)
                        | Inr st2 \<Rightarrow> spawn_nix_build w basesrc p st2))))"

subsection \<open>Identifier and tag\<close>

text \<open>
  \<open>docker_nix.go\<close> lines 106 to 127 and \<open>part_000\<close> lines 119 to 140. The two differ in
  one argument of the error message of the lookup (\<open>rsp\<close> in the first, \<open>defaultTag\<close>
  in the second), passed here as \<open>shown\<close>.
\<close>

definition identify_and_tag :: "world \<Rightarrow> BuildInput \<Rightarrow> string \<Rightarrow> string \<Rightarrow> state \<Rightarrow> outcome \<times> state" where
  "identify_and_tag w inp defaultTag shown st =
     (let st1 = emit (EvInfow ''build completed'' [(''default_tag'', defaultTag), (''took'', took w)]) st;
          st2 = emit (EvGetImageID defaultTag) st1
      in case GetImageID w defaultTag of
           Inl err \<Rightarrow>
             (Return None (Some (WrapError
                (''couldnt get docker image id: '' @ shown @ '', '' @ Error err) err)), st2)
         | Inr imageID \<Rightarrow>
             (let st3 = emit (EvInfow ''got docker image id'' [(''image_id'', imageID)]) st2;
                  out = \<lparr>ArtifactPath = imageID\<rparr>;
                  testplanImageTag = TestPlan inp @ '':'' @ imageID;
                  st4 = emit (EvInfow ''tagging image''
                                [(''image_id'', imageID), (''tag'', testplanImageTag)]) st3;
                  st5 = emit (EvImageTag (ArtifactPath out) testplanImageTag) st4
              in case ImageTag w (ArtifactPath out) testplanImageTag of
                   Some err \<Rightarrow> (Return (Some out) (Some err), st5)
                 | None \<Rightarrow> (Return (Some out) None, st5)))"

text \<open>The expression of line 105 (line 107 in \<open>part_000\<close>).\<close>

definition defaultTag_of :: "string \<Rightarrow> string" where
  "defaultTag_of rsp = TrimRight (TrimPrefix rsp ''Loaded image: '') crlf"

subsection \<open>\<open>src/unnamed/part_000\<close>\<close>

text \<open>
  The loop of lines 88 to 113, from the value \<open>i\<close> of the counter. \<open>Inl\<close> is the return
  of line 93; \<open>Inr\<close> is the value of \<open>defaultTag\<close> when the loop is left. The file is
  never closed.
\<close>

function load_loop :: "world \<Rightarrow> string \<Rightarrow> nat \<Rightarrow> string \<Rightarrow> state \<Rightarrow> (outcome + string) \<times> state" where
  "load_loop w path i defaultTag st =
     (if i < 2 then
        (let st1 = emit (EvOpen path) st
         in case os_Open w i path of
              Some err \<Rightarrow>
                (Inl (Return None (Some (WrapError
                   (''couldnt open tarball: '' @ path @ '', '' @ Error err) err))), st1)
            | None \<Rightarrow>
                (let st2 = emit (EvImageLoad i) (st1\<lparr>open_files := open_files st1 @ [i]\<rparr>)
                 in case ImageLoad w i i of
                      Inl err \<Rightarrow> load_loop w path (i + 1) defaultTag (emit (EvSleep 1000) st2)
                    | Inr body \<Rightarrow>
                        (let st3 = emit (EvPipeOutput body) st2
                         in case PipeOutput w i body of
                              Inl err \<Rightarrow> load_loop w path (i + 1) defaultTag (emit (EvSleep 1000) st3)
                            | Inr rsp \<Rightarrow>
                                (if length (defaultTag_of rsp) > 0 then (Inr (defaultTag_of rsp), st3)
                                 else load_loop w path (i + 1) (defaultTag_of rsp)
                                        (emit (EvSleep 1000) st3)))))
      else (Inr defaultTag, st))"
  by pat_completeness auto
termination
  by (relation "measure (\<lambda>(w, path, i, defaultTag, st). 2 - i)") auto

declare load_loop.simps [simp del]

text \<open>Lines 88 to 140: the loop, the check of line 115, and the identifier and tag.\<close>

definition ingest_part_000 :: "world \<Rightarrow> BuildInput \<Rightarrow> string \<Rightarrow> state \<Rightarrow> outcome \<times> state" where
  "ingest_part_000 w inp path st =
     (case load_loop w path 0 [] st of
        (Inl r, st2) \<Rightarrow> (r, st2)
      | (Inr defaultTag, st2) \<Rightarrow>
          (if length defaultTag = 0 then
             (Return None (Some (ErrorString ''fail to load docker image'')), st2)
           else identify_and_tag w inp defaultTag defaultTag st2))"

definition Build_part_000 :: "world \<Rightarrow> BuildInput \<Rightarrow> (addr \<Rightarrow> DockerNixBuilderConfig) \<Rightarrow> outcome \<times> state" where
  "Build_part_000 w inp h =
     (case build_nix w inp (init h) of
        (Inl r, st1) \<Rightarrow> (r, st1)
      | (Inr path, st1) \<Rightarrow> ingest_part_000 w inp path st1)"

subsection \<open>\<open>src/pkg/build/docker_nix.go\<close>\<close>

text \<open>Lines 96 to 127: what runs between the \<open>defer\<close> of line 95 and the return.\<close>

definition load_and_tag :: "world \<Rightarrow> BuildInput \<Rightarrow> handle \<Rightarrow> state \<Rightarrow> outcome \<times> state" where
  "load_and_tag w inp tarball st =
     (let st1 = emit (EvImageLoad tarball) st
      in case ImageLoad w 0 tarball of
           Inl err \<Rightarrow> (Return None (Some (Errorf_w ''docker image load failed: '' err)), st1)
         | Inr body \<Rightarrow>
             (let st2 = emit (EvPipeOutput body) st1
              in case PipeOutput w 0 body of
                   Inl err \<Rightarrow>
                     (Return None (Some (Errorf_w ''couldnt read docker image load response: '' err)), st2)
                 | Inr rsp \<Rightarrow> identify_and_tag w inp (defaultTag_of rsp) rsp st2))"

text \<open>\<open>tarball.Close()\<close>; its result is dropped by the \<open>defer\<close>.\<close>

definition Close :: "handle \<Rightarrow> state \<Rightarrow> state" where
  "Close f st = emit (EvClose f) (st\<lparr>open_files := removeAll f (open_files st)\<rparr>)"

text \<open>Lines 88 to 127; the deferred \<open>Close\<close> runs last, after the result is fixed.\<close>

definition ingest_docker_nix :: "world \<Rightarrow> BuildInput \<Rightarrow> string \<Rightarrow> state \<Rightarrow> outcome \<times> state" where
  "ingest_docker_nix w inp path st =
     (let st2 = emit (EvOpen path) (emit (EvSleep 100) st)
      in case os_Open w 0 path of
           Some err \<Rightarrow>
             (Return None (Some (WrapError
                (''couldnt open tarball: '' @ path @ '', '' @ Error err) err)), st2)
         | None \<Rightarrow>
             (case load_and_tag w inp 0 (st2\<lparr>open_files := open_files st2 @ [0]\<rparr>) of
                (r, st3) \<Rightarrow> (r, Close 0 st3)))"

definition Build_docker_nix :: "world \<Rightarrow> BuildInput \<Rightarrow> (addr \<Rightarrow> DockerNixBuilderConfig) \<Rightarrow> outcome \<times> state" where
  "Build_docker_nix w inp h =
     (case build_nix w inp (init h) of
        (Inl r, st1) \<Rightarrow> (r, st1)
      | (Inr path, st1) \<Rightarrow> ingest_docker_nix w inp path st1)"

subsection \<open>Both files\<close>

datatype source_file = Part_000 | Docker_nix_go

fun Build :: "source_file \<Rightarrow> world \<Rightarrow> BuildInput \<Rightarrow> (addr \<Rightarrow> DockerNixBuilderConfig) \<Rightarrow> outcome \<times> state" where
  "Build Part_000 w inp h = Build_part_000 w inp h"
| "Build Docker_nix_go w inp h = Build_docker_nix w inp h"

section \<open>Reading a run\<close>

text \<open>The calls of one kind in a trace, in order, with their arguments.\<close>

fun exec_calls :: "event list \<Rightarrow> string list list" where
  "exec_calls [] = []"
| "exec_calls (EvExec argv # evs) = argv # exec_calls evs"
| "exec_calls (ev # evs) = exec_calls evs"

fun sleep_calls :: "event list \<Rightarrow> nat list" where
  "sleep_calls [] = []"
| "sleep_calls (EvSleep ms # evs) = ms # sleep_calls evs"
| "sleep_calls (ev # evs) = sleep_calls evs"

fun open_calls :: "event list \<Rightarrow> string list" where
  "open_calls [] = []"
| "open_calls (EvOpen path # evs) = path # open_calls evs"
| "open_calls (ev # evs) = open_calls evs"

fun close_calls :: "event list \<Rightarrow> handle list" where
  "close_calls [] = []"
| "close_calls (EvClose f # evs) = f # close_calls evs"
| "close_calls (ev # evs) = close_calls evs"

fun load_calls :: "event list \<Rightarrow> handle list" where
  "load_calls [] = []"
| "load_calls (EvImageLoad f # evs) = f # load_calls evs"
| "load_calls (ev # evs) = load_calls evs"

fun lookup_calls :: "event list \<Rightarrow> string list" where
  "lookup_calls [] = []"
| "lookup_calls (EvGetImageID t # evs) = t # lookup_calls evs"
| "lookup_calls (ev # evs) = lookup_calls evs"

fun tag_calls :: "event list \<Rightarrow> (string \<times> string) list" where
  "tag_calls [] = []"
| "tag_calls (EvImageTag i t # evs) = (i, t) # tag_calls evs"
| "tag_calls (ev # evs) = tag_calls evs"

text \<open>
  What attempt \<open>i\<close> parses once its file is open: \<open>None\<close> when the ingestion call
  fails or its response cannot be read, otherwise the tag cut out of the response.
\<close>

definition attempt_tag :: "world \<Rightarrow> nat \<Rightarrow> string option" where
  "attempt_tag w i =
     (case ImageLoad w i i of
        Inl err \<Rightarrow> None
      | Inr body \<Rightarrow>
          (case PipeOutput w i body of
             Inl err \<Rightarrow> None
           | Inr rsp \<Rightarrow> Some (defaultTag_of rsp)))"

text \<open>The error of line 93.\<close>

definition open_error :: "string \<Rightarrow> go_error \<Rightarrow> go_error" where
  "open_error path err = WrapError (''couldnt open tarball: '' @ path @ '', '' @ Error err) err"

text \<open>The error of line 110 (line 123 in \<open>part_000\<close>).\<close>

definition lookup_error :: "string \<Rightarrow> go_error \<Rightarrow> go_error" where
  "lookup_error shown err =
     WrapError (''couldnt get docker image id: '' @ shown @ '', '' @ Error err) err"

text \<open>
  A run \<open>B\<close> that went through the identifier stage with the default tag \<open>T\<close>: it asked
  once for the identifier of \<open>T\<close>; without an answer it returned the lookup error and no
  output, with no tag call; with the identifier \<open>i\<close> it made the one tag call and returned
  the output holding \<open>i\<close> together with whatever the tag call answered.
\<close>

definition identified :: "world \<Rightarrow> BuildInput \<Rightarrow> string \<Rightarrow> string \<Rightarrow> outcome \<times> state \<Rightarrow> bool" where
  "identified w inp T shown B =
     (lookup_calls (trace (snd B)) = [T] \<and>
      (case GetImageID w T of
         Inl err \<Rightarrow> tag_calls (trace (snd B)) = [] \<and> fst B = Return None (Some (lookup_error shown err))
       | Inr i \<Rightarrow> tag_calls (trace (snd B)) = [(i, TestPlan inp @ '':'' @ i)] \<and>
                 fst B = Return (Some \<lparr>ArtifactPath = i\<rparr>) (ImageTag w i (TestPlan inp @ '':'' @ i))))"

section \<open>A concrete run\<close>

text \<open>
  Plan \<open>mytest\<close> on an amd64 host, name and platform not set; the build prints
  \<open>/nix/store/abc.tar\<close>; the first ingestion call fails, the second answers
  \<open>Loaded image: myimg:latest\<close>; the identifier is \<open>sha256:deadbeef\<close>.
\<close>

definition cfg0 :: DockerNixBuilderConfig where
  "cfg0 = \<lparr>Enabled = True, Name = [], System = []\<rparr>"

definition heap0 :: "addr \<Rightarrow> DockerNixBuilderConfig" where
  "heap0 = (\<lambda>a. cfg0)"

definition in0 :: BuildInput where
  "in0 = \<lparr>BuildConfig = DockerNixBuilderConfigPtr (Some 0), TestPlan = ''mytest'',
           PlanDir = ''/plans/mytest''\<rparr>"

definition world0 :: world where
  "world0 = \<lparr>GOARCH = ''amd64'', NewClientWithOpts = None,
     cmd_Output = (\<lambda>argv. Inr (''/nix/store/abc.tar'' @ [CHR 0x0A])),
     os_Open = (\<lambda>i path. None),
     ImageLoad = (\<lambda>i f. if i = 0 then Inl (ErrorString ''EOF'') else Inr ''body''),
     PipeOutput = (\<lambda>i body. Inr (''Loaded image: myimg:latest'' @ crlf)),
     GetImageID = (\<lambda>t. if t = ''myimg:latest'' then Inr ''sha256:deadbeef''
                        else Inl (ErrorString ''No such image'')),
     ImageTag = (\<lambda>i t. None), took = ''1s''\<rparr>"

section \<open>Stage lemmas\<close>

text \<open>What each stage leaves alone, and what it adds to the trace.\<close>

lemma trace_emit [simp]: "trace (emit ev st) = trace st @ [ev]"
  and heap_emit [simp]: "heap (emit ev st) = heap st"
  and open_files_emit [simp]: "open_files (emit ev st) = open_files st"
  by (simp_all add: emit_def)

lemma exec_calls_append [simp]: "exec_calls (xs @ ys) = exec_calls xs @ exec_calls ys"
  by (induction xs rule: exec_calls.induct) simp_all
lemma sleep_calls_append [simp]: "sleep_calls (xs @ ys) = sleep_calls xs @ sleep_calls ys"
  by (induction xs rule: sleep_calls.induct) simp_all
lemma open_calls_append [simp]: "open_calls (xs @ ys) = open_calls xs @ open_calls ys"
  by (induction xs rule: open_calls.induct) simp_all
lemma close_calls_append [simp]: "close_calls (xs @ ys) = close_calls xs @ close_calls ys"
  by (induction xs rule: close_calls.induct) simp_all
lemma load_calls_append [simp]: "load_calls (xs @ ys) = load_calls xs @ load_calls ys"
  by (induction xs rule: load_calls.induct) simp_all
lemma lookup_calls_append [simp]: "lookup_calls (xs @ ys) = lookup_calls xs @ lookup_calls ys"
  by (induction xs rule: lookup_calls.induct) simp_all
lemma tag_calls_append [simp]: "tag_calls (xs @ ys) = tag_calls xs @ tag_calls ys"
  by (induction xs rule: tag_calls.induct) simp_all



lemma fill_default_configs_frame:
  assumes "fill_default_configs w inp p st = Inr st'"
  shows "trace st' = trace st \<and> open_files st' = open_files st"
  using assms by (auto simp: fill_default_configs_def split: if_splits)

lemma spawn_nix_build_frame:
  assumes "spawn_nix_build w basesrc p st = (r, st')"
  shows "heap st' = heap st \<and> open_files st' = open_files st
    \<and> sleep_calls (trace st') = sleep_calls (trace st)
    \<and> open_calls (trace st') = open_calls (trace st)
    \<and> close_calls (trace st') = close_calls (trace st)
    \<and> load_calls (trace st') = load_calls (trace st)
    \<and> lookup_calls (trace st') = lookup_calls (trace st)
    \<and> tag_calls (trace st') = tag_calls (trace st)"
  using assms
  by (auto simp: spawn_nix_build_def Let_def split: sum.splits go_error.splits)

lemma build_nix_frame:
  assumes "build_nix w inp st = (r, st')"
  shows "open_files st' = open_files st
    \<and> sleep_calls (trace st') = sleep_calls (trace st)
    \<and> open_calls (trace st') = open_calls (trace st)
    \<and> close_calls (trace st') = close_calls (trace st)
    \<and> load_calls (trace st') = load_calls (trace st)
    \<and> lookup_calls (trace st') = lookup_calls (trace st)
    \<and> tag_calls (trace st') = tag_calls (trace st)"
proof (cases "BuildConfig inp")
  case (OtherBuildConfig T)
  with assms show ?thesis by (auto simp: build_nix_def)
next
  case (DockerNixBuilderConfigPtr cfg)
  note ptr = this
  show ?thesis
  proof (cases "NewClientWithOpts w")
    case (Some err)
    with assms ptr show ?thesis by (auto simp: build_nix_def Let_def)
  next
    case None
    note cli = this
    show ?thesis
    proof (cases cfg)
      case None
      with assms ptr cli show ?thesis by (auto simp: build_nix_def Let_def)
    next
      case (Some p)
      note some = this
      show ?thesis
      proof (cases "fill_default_configs w inp p (emit EvNewClient st)")
        case (Inl r')
        with assms ptr cli some show ?thesis by (auto simp: build_nix_def Let_def)
      next
        case (Inr st2)
        with assms ptr cli some
        have sp: "spawn_nix_build w (PlanDir inp) p st2 = (r, st')"
          by (simp add: build_nix_def Let_def)
        from fill_default_configs_frame [OF Inr] spawn_nix_build_frame [OF sp]
        show ?thesis by simp
      qed
    qed
  qed
qed

lemma identify_and_tag_frame:
  assumes "identify_and_tag w inp t shown st = (r, st')"
  shows "heap st' = heap st \<and> open_files st' = open_files st
    \<and> exec_calls (trace st') = exec_calls (trace st)
    \<and> sleep_calls (trace st') = sleep_calls (trace st)
    \<and> open_calls (trace st') = open_calls (trace st)
    \<and> close_calls (trace st') = close_calls (trace st)
    \<and> load_calls (trace st') = load_calls (trace st)"
  using assms
  by (auto simp: identify_and_tag_def Let_def split: sum.splits option.splits)


lemma load_loop_done: "\<not> i < 2 \<Longrightarrow> load_loop w path i t st = (Inr t, st)"
  by (subst load_loop.simps) simp

lemma load_loop_open_fail:
  "i < 2 \<Longrightarrow> os_Open w i path = Some err \<Longrightarrow>
   load_loop w path i t st = (Inl (Return None (Some (open_error path err))), emit (EvOpen path) st)"
  by (subst load_loop.simps) (simp add: open_error_def)

lemma load_loop_load_fail:
  "i < 2 \<Longrightarrow> os_Open w i path = None \<Longrightarrow> ImageLoad w i i = Inl err \<Longrightarrow>
   load_loop w path i t st =
   load_loop w path (Suc i) t (emit (EvSleep 1000) (emit (EvImageLoad i)
     ((emit (EvOpen path) st)\<lparr>open_files := open_files st @ [i]\<rparr>)))"
  by (subst load_loop.simps) (simp add: Let_def)

lemma load_loop_pipe_fail:
  "i < 2 \<Longrightarrow> os_Open w i path = None \<Longrightarrow> ImageLoad w i i = Inr body \<Longrightarrow>
   PipeOutput w i body = Inl err \<Longrightarrow>
   load_loop w path i t st =
   load_loop w path (Suc i) t (emit (EvSleep 1000) (emit (EvPipeOutput body) (emit (EvImageLoad i)
     ((emit (EvOpen path) st)\<lparr>open_files := open_files st @ [i]\<rparr>))))"
  by (subst load_loop.simps) (simp add: Let_def)

lemma load_loop_empty:
  "i < 2 \<Longrightarrow> os_Open w i path = None \<Longrightarrow> ImageLoad w i i = Inr body \<Longrightarrow>
   PipeOutput w i body = Inr rsp \<Longrightarrow> defaultTag_of rsp = [] \<Longrightarrow>
   load_loop w path i t st =
   load_loop w path (Suc i) [] (emit (EvSleep 1000) (emit (EvPipeOutput body) (emit (EvImageLoad i)
     ((emit (EvOpen path) st)\<lparr>open_files := open_files st @ [i]\<rparr>))))"
  by (subst load_loop.simps) (simp add: Let_def)

lemma load_loop_success:
  "i < 2 \<Longrightarrow> os_Open w i path = None \<Longrightarrow> ImageLoad w i i = Inr body \<Longrightarrow>
   PipeOutput w i body = Inr rsp \<Longrightarrow> defaultTag_of rsp \<noteq> [] \<Longrightarrow>
   load_loop w path i t st =
   (Inr (defaultTag_of rsp), emit (EvPipeOutput body) (emit (EvImageLoad i)
     ((emit (EvOpen path) st)\<lparr>open_files := open_files st @ [i]\<rparr>)))"
  by (subst load_loop.simps) (simp add: Let_def)


lemma load_loop_frame:
  "load_loop w path i t st = (r, st') \<Longrightarrow>
     heap st' = heap st \<and> exec_calls (trace st') = exec_calls (trace st)
     \<and> close_calls (trace st') = close_calls (trace st)
     \<and> lookup_calls (trace st') = lookup_calls (trace st)
     \<and> tag_calls (trace st') = tag_calls (trace st)
     \<and> (\<forall>x. r = Inl x \<longrightarrow> (\<exists>e. x = Return None (Some (open_error path e))))"
proof (induction "2 - i" arbitrary: i t st)
  case 0
  then show ?case by (auto simp: load_loop_done)
next
  case (Suc n)
  then have lt: "i < 2" and n: "n = 2 - Suc i" by simp_all
  note IH = Suc.hyps(1) [OF n]
  show ?case
  proof (cases "os_Open w i path")
    case (Some err)
    with Suc.prems lt show ?thesis by (auto simp: load_loop_open_fail)
  next
    case None
    note op = this
    show ?thesis
    proof (cases "ImageLoad w i i")
      case (Inl err)
      from Suc.prems IH show ?thesis
        unfolding load_loop_load_fail [OF lt op Inl] by fastforce
    next
      case (Inr body)
      note ld = this
      show ?thesis
      proof (cases "PipeOutput w i body")
        case (Inl err)
        from Suc.prems IH show ?thesis
          unfolding load_loop_pipe_fail [OF lt op ld Inl] by fastforce
      next
        case (Inr rsp)
        show ?thesis
        proof (cases "defaultTag_of rsp = []")
          case True
          from Suc.prems IH show ?thesis
            unfolding load_loop_empty [OF lt op ld Inr True] by fastforce
        next
          case False
          from Suc.prems show ?thesis
            unfolding load_loop_success [OF lt op ld Inr False] by auto
        qed
      qed
    qed
  qed
qed

lemma load_loop_retry:
  assumes "i < 2" and "os_Open w i path = None"
    and "attempt_tag w i = None \<or> attempt_tag w i = Some []"
  shows "\<exists>st1. load_loop w path i [] st = load_loop w path (Suc i) [] st1
           \<and> sleep_calls (trace st1) = sleep_calls (trace st) @ [1000]
           \<and> open_calls (trace st1) = open_calls (trace st) @ [path]
           \<and> load_calls (trace st1) = load_calls (trace st) @ [i]
           \<and> open_files st1 = open_files st @ [i]"
proof (cases "ImageLoad w i i")
  case (Inl err)
  show ?thesis
    unfolding load_loop_load_fail [OF assms(1,2) Inl] by (intro exI conjI) (rule refl, simp_all)
next
  case (Inr body)
  note ld = this
  show ?thesis
  proof (cases "PipeOutput w i body")
    case (Inl err)
    show ?thesis
      unfolding load_loop_pipe_fail [OF assms(1,2) ld Inl] by (intro exI conjI) (rule refl, simp_all)
  next
    case (Inr rsp)
    with assms(3) ld have "defaultTag_of rsp = []" by (simp add: attempt_tag_def)
    then show ?thesis
      unfolding load_loop_empty [OF assms(1,2) ld Inr \<open>defaultTag_of rsp = []\<close>]
      by (intro exI conjI) (rule refl, simp_all)
  qed
qed

lemma load_loop_stop:
  assumes "i < 2" and "os_Open w i path = None"
    and "attempt_tag w i = Some T" and "T \<noteq> []"
  shows "\<exists>st1. load_loop w path i t st = (Inr T, st1)
           \<and> sleep_calls (trace st1) = sleep_calls (trace st)
           \<and> open_calls (trace st1) = open_calls (trace st) @ [path]
           \<and> load_calls (trace st1) = load_calls (trace st) @ [i]
           \<and> open_files st1 = open_files st @ [i]"
proof -
  from assms(3) obtain body rsp where ld: "ImageLoad w i i = Inr body"
    and pp: "PipeOutput w i body = Inr rsp" and T: "T = defaultTag_of rsp"
    by (auto simp: attempt_tag_def split: sum.splits)
  from assms(4) T have ne: "defaultTag_of rsp \<noteq> []" by simp
  show ?thesis
    unfolding load_loop_success [OF assms(1,2) ld pp ne] T by simp
qed


lemma identify_and_tag_result:
  "fst (identify_and_tag w inp T shown st) =
     (case GetImageID w T of
        Inl err \<Rightarrow> Return None (Some (WrapError
                     (''couldnt get docker image id: '' @ shown @ '', '' @ Error err) err))
      | Inr i \<Rightarrow> Return (Some \<lparr>ArtifactPath = i\<rparr>) (ImageTag w i (TestPlan inp @ '':'' @ i)))"
  by (auto simp: identify_and_tag_def Let_def split: sum.splits option.splits)

lemma identify_and_tag_calls:
  "lookup_calls (trace (snd (identify_and_tag w inp T shown st))) = lookup_calls (trace st) @ [T]"
  "tag_calls (trace (snd (identify_and_tag w inp T shown st))) = tag_calls (trace st) @
     (case GetImageID w T of Inl err \<Rightarrow> [] | Inr i \<Rightarrow> [(i, TestPlan inp @ '':'' @ i)])"
  by (auto simp: identify_and_tag_def Let_def split: sum.splits option.splits)

lemma identify_and_tag_frame2:
  "heap (snd (identify_and_tag w inp T shown st)) = heap st"
  "open_files (snd (identify_and_tag w inp T shown st)) = open_files st"
  "exec_calls (trace (snd (identify_and_tag w inp T shown st))) = exec_calls (trace st)"
  "sleep_calls (trace (snd (identify_and_tag w inp T shown st))) = sleep_calls (trace st)"
  "open_calls (trace (snd (identify_and_tag w inp T shown st))) = open_calls (trace st)"
  "close_calls (trace (snd (identify_and_tag w inp T shown st))) = close_calls (trace st)"
  "load_calls (trace (snd (identify_and_tag w inp T shown st))) = load_calls (trace st)"
  by (auto simp: identify_and_tag_def Let_def split: sum.splits option.splits)

lemma Build_part_000_Inl:
  "build_nix w inp (init h) = (Inl r, st1) \<Longrightarrow> Build_part_000 w inp h = (r, st1)"
  by (simp add: Build_part_000_def)

lemma Build_part_000_Inr:
  "build_nix w inp (init h) = (Inr path, st1) \<Longrightarrow>
   Build_part_000 w inp h = ingest_part_000 w inp path st1"
  by (simp add: Build_part_000_def)

lemma Build_docker_nix_Inl:
  "build_nix w inp (init h) = (Inl r, st1) \<Longrightarrow> Build_docker_nix w inp h = (r, st1)"
  by (simp add: Build_docker_nix_def)

lemma Build_docker_nix_Inr:
  "build_nix w inp (init h) = (Inr path, st1) \<Longrightarrow>
   Build_docker_nix w inp h = ingest_docker_nix w inp path st1"
  by (simp add: Build_docker_nix_def)

lemma ingest_part_000_frame:
  "heap (snd (ingest_part_000 w inp path st)) = heap st
   \<and> exec_calls (trace (snd (ingest_part_000 w inp path st))) = exec_calls (trace st)
   \<and> close_calls (trace (snd (ingest_part_000 w inp path st))) = close_calls (trace st)"
proof (cases "load_loop w path 0 [] st")
  case (Pair r st2)
  from load_loop_frame [OF Pair] show ?thesis
    by (cases r) (auto simp: ingest_part_000_def Pair identify_and_tag_frame2)
qed

lemma load_and_tag_frame:
  "heap (snd (load_and_tag w inp f st)) = heap st
   \<and> open_files (snd (load_and_tag w inp f st)) = open_files st
   \<and> exec_calls (trace (snd (load_and_tag w inp f st))) = exec_calls (trace st)
   \<and> sleep_calls (trace (snd (load_and_tag w inp f st))) = sleep_calls (trace st)
   \<and> open_calls (trace (snd (load_and_tag w inp f st))) = open_calls (trace st)
   \<and> close_calls (trace (snd (load_and_tag w inp f st))) = close_calls (trace st)
   \<and> load_calls (trace (snd (load_and_tag w inp f st))) = load_calls (trace st) @ [f]"
  by (auto simp: load_and_tag_def Let_def identify_and_tag_frame2 split: sum.splits)

lemma trace_Close [simp]: "trace (Close f st) = trace st @ [EvClose f]"
  and heap_Close [simp]: "heap (Close f st) = heap st"
  and open_files_Close [simp]: "open_files (Close f st) = removeAll f (open_files st)"
  by (simp_all add: Close_def)

lemma ingest_docker_nix_frame:
  "heap (snd (ingest_docker_nix w inp path st)) = heap st
   \<and> exec_calls (trace (snd (ingest_docker_nix w inp path st))) = exec_calls (trace st)
   \<and> open_calls (trace (snd (ingest_docker_nix w inp path st))) = open_calls (trace st) @ [path]
   \<and> sleep_calls (trace (snd (ingest_docker_nix w inp path st))) = sleep_calls (trace st) @ [100]
   \<and> (open_files st = [] \<longrightarrow> open_files (snd (ingest_docker_nix w inp path st)) = [])
   \<and> close_calls (trace (snd (ingest_docker_nix w inp path st))) = close_calls (trace st) @
         (case os_Open w 0 path of None \<Rightarrow> [0] | Some err \<Rightarrow> [])"
proof (cases "os_Open w 0 path")
  case (Some err)
  then show ?thesis by (simp add: ingest_docker_nix_def Let_def)
next
  case None
  then show ?thesis
    by (simp add: ingest_docker_nix_def Let_def split_beta load_and_tag_frame)
qed

lemma fill_default_configs_Inl:
  "fill_default_configs w inp p st = Inl x \<longleftrightarrow>
     System (heap st p) = [] \<and> GOARCH w \<noteq> ''arm64'' \<and> GOARCH w \<noteq> ''amd64''
     \<and> x = Return None (Some (ErrorString (''unsupported architecture: '' @ GOARCH w)))"
  by (auto simp: fill_default_configs_def split: if_splits)

lemma fill_default_configs_Inr:
  assumes "fill_default_configs w inp p st = Inr st'"
  shows "heap st' = (heap st)(p := \<lparr>Enabled = Enabled (heap st p),
           Name = (if Name (heap st p) = [] then TestPlan inp @ ''-image'' else Name (heap st p)),
           System = (if System (heap st p) \<noteq> [] then System (heap st p)
                     else if GOARCH w = ''arm64'' then ''aarch64-linux'' else ''x86_64-linux'')\<rparr>)"
    and "System (heap st p) \<noteq> [] \<or> GOARCH w = ''arm64'' \<or> GOARCH w = ''amd64''"
  using assms
  by (auto simp: fill_default_configs_def fun_eq_iff split: if_splits)

lemma spawn_nix_build_exec:
  "exec_calls (trace (snd (spawn_nix_build w basesrc p st))) =
     exec_calls (trace st) @ [nix_argv (target basesrc (heap st p))]"
  by (auto simp: spawn_nix_build_def Let_def split: sum.splits go_error.splits)

lemma spawn_nix_build_heap:
  "heap (snd (spawn_nix_build w basesrc p st)) = heap st"
  by (auto simp: spawn_nix_build_def Let_def split: sum.splits go_error.splits)

lemma spawn_nix_build_exit:
  assumes "cmd_Output w (nix_argv (target basesrc (heap st p))) = Inl (ExitError s e)"
  shows "spawn_nix_build w basesrc p st =
     (Inl (Return None (Some (WrapError (''nix build failed: '' @ s) (ExitError s e)))),
      emit (EvErrorw ''nix build fail result'' [(''stderr'', e)])
        (emit (EvExec (nix_argv (target basesrc (heap st p))))
          (emit (EvInfow ''nix build'' [(''target'', target basesrc (heap st p))]) st)))"
  using assms by (simp add: spawn_nix_build_def Let_def Errorf_w_def)

lemma build_nix_cases:
  assumes "build_nix w inp st = (r, st')"
  obtains
    (other) T where "BuildConfig inp = OtherBuildConfig T" "st' = st"
      "r = Inl (Return None (Some (ErrorString
              (''expected configuration type DockerNixBuilderConfig, was: '' @ T))))"
  | (client) cfg err where "BuildConfig inp = DockerNixBuilderConfigPtr cfg"
      "NewClientWithOpts w = Some err" "st' = emit EvNewClient st" "r = Inl (Return None (Some err))"
  | (nil) "BuildConfig inp = DockerNixBuilderConfigPtr None" "NewClientWithOpts w = None"
      "st' = emit EvNewClient st" "r = Inl (Panic ''invalid memory address or nil pointer dereference'')"
  | (arch) p where "BuildConfig inp = DockerNixBuilderConfigPtr (Some p)" "NewClientWithOpts w = None"
      "System (heap st p) = []" "GOARCH w \<noteq> ''arm64''" "GOARCH w \<noteq> ''amd64''"
      "st' = emit EvNewClient st"
      "r = Inl (Return None (Some (ErrorString (''unsupported architecture: '' @ GOARCH w))))"
  | (spawn) p st2 where "BuildConfig inp = DockerNixBuilderConfigPtr (Some p)" "NewClientWithOpts w = None"
      "fill_default_configs w inp p (emit EvNewClient st) = Inr st2"
      "spawn_nix_build w (PlanDir inp) p st2 = (r, st')"
proof (cases "BuildConfig inp")
  case (OtherBuildConfig T)
  with assms other show ?thesis by (auto simp: build_nix_def)
next
  case (DockerNixBuilderConfigPtr cfg)
  note ptr = this
  show ?thesis
  proof (cases "NewClientWithOpts w")
    case (Some err)
    with assms ptr client show ?thesis by (auto simp: build_nix_def Let_def)
  next
    case None
    note cli = this
    show ?thesis
    proof (cases cfg)
      case None
      with assms ptr cli nil show ?thesis by (auto simp: build_nix_def Let_def)
    next
      case (Some p)
      note some = this
      show ?thesis
      proof (cases "fill_default_configs w inp p (emit EvNewClient st)")
        case (Inl x)
        from Inl [unfolded fill_default_configs_Inl] assms ptr cli some Inl
        show ?thesis by (intro arch [of p]) (auto simp: build_nix_def Let_def)
      next
        case (Inr st2)
        with assms ptr cli some show ?thesis
          by (intro spawn [of p st2]) (auto simp: build_nix_def Let_def)
      qed
    qed
  qed
qed


lemma init_simps [simp]: "heap (init h) = h" "trace (init h) = []" "open_files (init h) = []"
  by (simp_all add: init_def)

lemma Build_heap_exec:
  assumes "build_nix w inp (init h) = (r, st1)"
  shows "heap (snd (Build v w inp h)) = heap st1"
    and "exec_calls (trace (snd (Build v w inp h))) = exec_calls (trace st1)"
  using assms
  by (cases v; cases r;
      simp add: Build_part_000_Inl Build_part_000_Inr Build_docker_nix_Inl Build_docker_nix_Inr
        ingest_part_000_frame ingest_docker_nix_frame)+

lemma Build_early:
  assumes "build_nix w inp (init h) = (Inl r, st1)"
  shows "Build v w inp h = (r, st1)"
  using assms by (cases v) (simp_all add: Build_part_000_Inl Build_docker_nix_Inl)

text \<open>
  Claim C8. When the configuration is a \<open>*DockerNixBuilderConfig\<close> and the client was
  created: a platform that is set is used as it is; an empty one becomes \<open>aarch64-linux\<close>
  on \<open>arm64\<close> and \<open>x86_64-linux\<close> on \<open>amd64\<close>, and that platform is the one in the
  target of the single \<open>nix build\<close> call; on any other architecture \<open>Build\<close> returns the
  unsupported-architecture error with no output, having made no call but the creation
  of the client, so no subprocess. Both files.
\<close>
theorem C8_platform_resolution:
  assumes "BuildConfig inp = DockerNixBuilderConfigPtr (Some p)"
    and "NewClientWithOpts w = None"
  shows "(System (h p) \<noteq> [] \<longrightarrow>
            System (heap (snd (Build v w inp h)) p) = System (h p)
            \<and> exec_calls (trace (snd (Build v w inp h))) =
                [nix_argv (PlanDir inp @ ''#legacyPackages.'' @ System (h p) @ ''.'' @
                           Name (heap (snd (Build v w inp h)) p))])
       \<and> (System (h p) = [] \<and> GOARCH w = ''arm64'' \<longrightarrow>
            System (heap (snd (Build v w inp h)) p) = ''aarch64-linux''
            \<and> exec_calls (trace (snd (Build v w inp h))) =
                [nix_argv (PlanDir inp @ ''#legacyPackages.aarch64-linux.'' @
                           Name (heap (snd (Build v w inp h)) p))])
       \<and> (System (h p) = [] \<and> GOARCH w = ''amd64'' \<longrightarrow>
            System (heap (snd (Build v w inp h)) p) = ''x86_64-linux''
            \<and> exec_calls (trace (snd (Build v w inp h))) =
                [nix_argv (PlanDir inp @ ''#legacyPackages.x86_64-linux.'' @
                           Name (heap (snd (Build v w inp h)) p))])
       \<and> (System (h p) = [] \<and> GOARCH w \<noteq> ''arm64'' \<and> GOARCH w \<noteq> ''amd64'' \<longrightarrow>
            Build v w inp h =
              (Return None (Some (ErrorString (''unsupported architecture: '' @ GOARCH w))),
               \<lparr>heap = h, trace = [EvNewClient], open_files = []\<rparr>)
            \<and> exec_calls (trace (snd (Build v w inp h))) = [])"
proof -
  obtain r st1 where bn: "build_nix w inp (init h) = (r, st1)"
    by (cases "build_nix w inp (init h)")
  note he = Build_heap_exec [OF bn, of v]
  from bn show ?thesis
  proof (cases rule: build_nix_cases)
    case (arch q)
    with assms have "q = p" by simp
    from Build_early [OF bn [unfolded arch(7)], of v] arch assms \<open>q = p\<close>
    show ?thesis by (simp add: emit_def init_def)
  next
    case (spawn q st2)
    with assms have [simp]: "q = p" by simp
    note f = fill_default_configs_Inr [OF spawn(3)]
    from spawn(4) have st1: "st1 = snd (spawn_nix_build w (PlanDir inp) p st2)" by simp
    have tr: "trace st2 = [EvNewClient]"
      using fill_default_configs_frame [OF spawn(3)] by simp
    from f(2) show ?thesis
      unfolding he st1 spawn_nix_build_heap spawn_nix_build_exec f(1) tr
      by (auto simp: target_def)
  qed (use assms in simp_all)
qed

theorem C8_platform_resolution_witness:
  "BuildConfig in0 = DockerNixBuilderConfigPtr (Some 0) \<and> NewClientWithOpts world0 = None
   \<and> System (heap0 0) = [] \<and> GOARCH world0 = ''amd64''
   \<and> System (heap (snd (Build Part_000 world0 in0 heap0)) 0) = ''x86_64-linux''
   \<and> System (heap (snd (Build Docker_nix_go (world0\<lparr>GOARCH := ''arm64''\<rparr>) in0 heap0)) 0) = ''aarch64-linux''
   \<and> System (heap (snd (Build Part_000 world0 in0 (\<lambda>a. cfg0\<lparr>System := ''i686-linux''\<rparr>))) 0) = ''i686-linux''
   \<and> Build Docker_nix_go (world0\<lparr>GOARCH := ''riscv64''\<rparr>) in0 heap0 =
        (Return None (Some (ErrorString ''unsupported architecture: riscv64'')),
         \<lparr>heap = heap0, trace = [EvNewClient], open_files = []\<rparr>)"
proof -
  have a: "BuildConfig in0 = DockerNixBuilderConfigPtr (Some 0)" by (simp add: in0_def)
  have b: "NewClientWithOpts (world0\<lparr>GOARCH := g\<rparr>) = None" for g by (simp add: world0_def)
  have b0: "NewClientWithOpts world0 = None" by (simp add: world0_def)
  have g0: "GOARCH world0 = ''amd64''" by (simp add: world0_def)
  have s0: "System (heap0 0) = []" by (simp add: heap0_def cfg0_def)
  from C8_platform_resolution [OF a b0, of heap0 Part_000]
       C8_platform_resolution [OF a b, of heap0 Docker_nix_go "''arm64''"]
       C8_platform_resolution [OF a b0, of "\<lambda>a. cfg0\<lparr>System := ''i686-linux''\<rparr>" Part_000]
       C8_platform_resolution [OF a b, of heap0 Docker_nix_go "''riscv64''"]
  show ?thesis by (simp add: a b0 g0 s0)
qed

text \<open>
  Claim C9, as amended. \<open>Build\<close> writes the defaults through the pointer it gets from the
  request, so the caller's configuration object is changed: once the client exists and
  the platform resolves, its \<open>Name\<close>, when empty, becomes the plan name followed by
  \<open>-image\<close> and its \<open>System\<close>, when empty, the platform of the table. What is not
  changed: the \<open>Enabled\<close> flag, a \<open>Name\<close> or \<open>System\<close> that was set, every other
  configuration object, and the object itself when \<open>Build\<close> stops at the unsupported
  architecture. (The fields of the request are only read: no assignment to them exists
  in either file, and the model passes them by value.)
\<close>
theorem C9_defaults_written_through_pointer:
  "(\<forall>q. BuildConfig inp \<noteq> DockerNixBuilderConfigPtr (Some q) \<longrightarrow>
          heap (snd (Build v w inp h)) q = h q)
   \<and> (\<forall>q. Enabled (heap (snd (Build v w inp h)) q) = Enabled (h q))
   \<and> (\<forall>q. System (h q) \<noteq> [] \<longrightarrow> System (heap (snd (Build v w inp h)) q) = System (h q))
   \<and> (\<forall>q. Name (h q) \<noteq> [] \<longrightarrow> Name (heap (snd (Build v w inp h)) q) = Name (h q))
   \<and> (\<forall>p. BuildConfig inp = DockerNixBuilderConfigPtr (Some p) \<and> NewClientWithOpts w = None
            \<and> (System (h p) \<noteq> [] \<or> GOARCH w = ''arm64'' \<or> GOARCH w = ''amd64'') \<longrightarrow>
          heap (snd (Build v w inp h)) p =
            \<lparr>Enabled = Enabled (h p),
             Name = (if Name (h p) = [] then TestPlan inp @ ''-image'' else Name (h p)),
             System = (if System (h p) \<noteq> [] then System (h p)
                       else if GOARCH w = ''arm64'' then ''aarch64-linux'' else ''x86_64-linux'')\<rparr>)
   \<and> (\<forall>p. BuildConfig inp = DockerNixBuilderConfigPtr (Some p) \<and> NewClientWithOpts w = None
            \<and> System (h p) = [] \<and> GOARCH w \<noteq> ''arm64'' \<and> GOARCH w \<noteq> ''amd64'' \<longrightarrow>
          heap (snd (Build v w inp h)) = h)"
proof -
  obtain r st1 where bn: "build_nix w inp (init h) = (r, st1)"
    by (cases "build_nix w inp (init h)")
  note he = Build_heap_exec(1) [OF bn, of v]
  from bn show ?thesis
  proof (cases rule: build_nix_cases)
    case (spawn p st2)
    note f = fill_default_configs_Inr [OF spawn(3)]
    from spawn(4) have st1: "st1 = snd (spawn_nix_build w (PlanDir inp) p st2)" by simp
    from f(2) show ?thesis
      unfolding he st1 spawn_nix_build_heap f(1) using spawn(1,2)
      by auto
  qed (simp_all add: he)
qed


theorem C9_defaults_written_through_pointer_witness:
  "BuildConfig in0 = DockerNixBuilderConfigPtr (Some 0) \<and> NewClientWithOpts world0 = None
   \<and> GOARCH world0 = ''amd64'' \<and> Name (heap0 0) = [] \<and> System (heap0 0) = []
   \<and> heap (snd (Build Part_000 world0 in0 heap0)) 0 =
         \<lparr>Enabled = True, Name = ''mytest-image'', System = ''x86_64-linux''\<rparr>
   \<and> heap (snd (Build Part_000 world0 in0 heap0)) 1 = heap0 1
   \<and> heap (snd (Build Docker_nix_go world0 in0 (\<lambda>a. cfg0\<lparr>Name := ''img'', System := ''i686-linux''\<rparr>))) 0 =
         \<lparr>Enabled = True, Name = ''img'', System = ''i686-linux''\<rparr>"
proof -
  have a: "BuildConfig in0 = DockerNixBuilderConfigPtr (Some 0)" by (simp add: in0_def)
  have b: "NewClientWithOpts world0 = None" "GOARCH world0 = ''amd64''" by (simp_all add: world0_def)
  have c: "Name (heap0 0) = []" "System (heap0 0) = []" "Enabled (heap0 0)"
    by (simp_all add: heap0_def cfg0_def)
  have d: "TestPlan in0 = ''mytest''" by (simp add: in0_def)
  from C9_defaults_written_through_pointer [of in0 Part_000 world0 heap0]
       C9_defaults_written_through_pointer [of in0 Docker_nix_go world0
          "\<lambda>a. cfg0\<lparr>Name := ''img'', System := ''i686-linux''\<rparr>"]
  show ?thesis by (simp add: a b c d cfg0_def)
qed

theorem C9_request_unmodified_counterexample:
  "heap0 0 = \<lparr>Enabled = True, Name = [], System = []\<rparr>
   \<and> heap (snd (Build Part_000 world0 in0 heap0)) 0 =
         \<lparr>Enabled = True, Name = ''mytest-image'', System = ''x86_64-linux''\<rparr>
   \<and> heap (snd (Build Docker_nix_go world0 in0 heap0)) 0 =
         \<lparr>Enabled = True, Name = ''mytest-image'', System = ''x86_64-linux''\<rparr>
   \<and> heap (snd (Build Part_000 world0 in0 heap0)) 0 \<noteq> heap0 0
   \<and> heap (snd (Build Docker_nix_go world0 in0 heap0)) 0 \<noteq> heap0 0"
proof -
  have a: "heap (snd (Build Part_000 world0 in0 heap0)) 0 =
         \<lparr>Enabled = True, Name = ''mytest-image'', System = ''x86_64-linux''\<rparr>"
    by code_simp
  have b: "heap (snd (Build Docker_nix_go world0 in0 heap0)) 0 =
         \<lparr>Enabled = True, Name = ''mytest-image'', System = ''x86_64-linux''\<rparr>"
    by code_simp
  have c: "heap0 0 = \<lparr>Enabled = True, Name = [], System = []\<rparr>"
    by (simp add: heap0_def cfg0_def)
  show ?thesis unfolding a b c by simp
qed

lemma Build_exit_error:
  assumes "exec_calls (trace (snd (Build v w inp h))) = [argv]"
    and "cmd_Output w argv = Inl (ExitError s e)"
  shows "fst (Build v w inp h) =
           Return None (Some (WrapError (''nix build failed: '' @ s) (ExitError s e)))
       \<and> (\<exists>tgt. trace (snd (Build v w inp h)) =
             [EvNewClient, EvInfow ''nix build'' [(''target'', tgt)], EvExec argv,
              EvErrorw ''nix build fail result'' [(''stderr'', e)]])
       \<and> open_files (snd (Build v w inp h)) = []"
proof -
  obtain r st1 where bn: "build_nix w inp (init h) = (r, st1)"
    by (cases "build_nix w inp (init h)")
  note he = Build_heap_exec(2) [OF bn, of v]
  from bn show ?thesis
  proof (cases rule: build_nix_cases)
    case (spawn p st2)
    have tr: "trace st2 = [EvNewClient]" "open_files st2 = []"
      using fill_default_configs_frame [OF spawn(3)] by simp_all
    from spawn(4) have st1: "st1 = snd (spawn_nix_build w (PlanDir inp) p st2)" by simp
    from assms(1) have argv: "argv = nix_argv (target (PlanDir inp) (heap st2 p))"
      unfolding he st1 spawn_nix_build_exec tr by simp
    note ex = spawn_nix_build_exit [OF assms(2) [unfolded argv]]
    from spawn(4) [unfolded ex] have r: "r = Inl (Return None (Some (WrapError (''nix build failed: '' @ s) (ExitError s e))))"
      and st1': "st1 = emit (EvErrorw ''nix build fail result'' [(''stderr'', e)])
        (emit (EvExec (nix_argv (target (PlanDir inp) (heap st2 p))))
          (emit (EvInfow ''nix build'' [(''target'', target (PlanDir inp) (heap st2 p))]) st2))"
      by simp_all
    from Build_early [OF bn [unfolded r], of v] show ?thesis
      by (simp add: st1' argv tr)
  qed (use assms(1) he in simp_all)
qed

text \<open>
  Claim C5. A run whose \<open>nix build\<close> subprocess, called with \<open>argv\<close>, ends with an
  \<open>*exec.ExitError\<close> (a non-zero exit) of state \<open>s\<close> and captured standard error \<open>e\<close>:
  \<open>Build\<close> returns no output and the error of \<open>fmt.Errorf("nix build failed: %w", err)\<close>,
  which wraps the exit error, whose \<open>Stderr\<close> field is \<open>e\<close>; it opens no file and makes
  no ingestion call; its last act is the log line that carries \<open>e\<close>. Both files.
\<close>
theorem C5_build_tool_failure:
  assumes "exec_calls (trace (snd (Build v w inp h))) = [argv]"
    and "cmd_Output w argv = Inl (ExitError s e)"
  shows "fst (Build v w inp h) =
           Return None (Some (WrapError (''nix build failed: '' @ s) (ExitError s e)))
       \<and> Unwrap (WrapError (''nix build failed: '' @ s) (ExitError s e)) = Some (ExitError s e)
       \<and> Stderr (ExitError s e) = Some e
       \<and> open_calls (trace (snd (Build v w inp h))) = []
       \<and> load_calls (trace (snd (Build v w inp h))) = []
       \<and> last (trace (snd (Build v w inp h))) = EvErrorw ''nix build fail result'' [(''stderr'', e)]"
proof -
  from Build_exit_error [OF assms] obtain tgt where
    r: "fst (Build v w inp h) =
       Return None (Some (WrapError (''nix build failed: '' @ s) (ExitError s e)))"
    and t: "trace (snd (Build v w inp h)) =
              [EvNewClient, EvInfow ''nix build'' [(''target'', tgt)], EvExec argv,
               EvErrorw ''nix build fail result'' [(''stderr'', e)]]"
    by blast
  show ?thesis unfolding r t by simp
qed

lemma identify_and_tag_identified:
  assumes "lookup_calls (trace st) = []" and "tag_calls (trace st) = []"
  shows "identified w inp T shown (identify_and_tag w inp T shown st)"
  using assms
  by (auto simp: identified_def identify_and_tag_result identify_and_tag_calls lookup_error_def
      split: sum.splits)

lemma identified_Close:
  "identified w inp T shown (r, Close f st) = identified w inp T shown (r, st)"
  by (simp add: identified_def split: sum.splits)

lemma ingest_part_000_stop:
  assumes "load_loop w path 0 [] st = (Inr T, st2)" and "T \<noteq> []"
  shows "ingest_part_000 w inp path st = identify_and_tag w inp T T st2"
  using assms by (simp add: ingest_part_000_def)

lemma ingest_part_000_shape:
  assumes "lookup_calls (trace st) = []" and "tag_calls (trace st) = []"
  shows "(lookup_calls (trace (snd (ingest_part_000 w inp path st))) = []
          \<and> tag_calls (trace (snd (ingest_part_000 w inp path st))) = []
          \<and> (\<exists>e. fst (ingest_part_000 w inp path st) = Return None (Some e)))
       \<or> (\<exists>T. T \<noteq> [] \<and> identified w inp T T (ingest_part_000 w inp path st))"
proof (cases "load_loop w path 0 [] st")
  case (Pair r st2)
  note fr = load_loop_frame [OF Pair]
  show ?thesis
  proof (cases r)
    case (Inl x)
    with fr assms Pair show ?thesis by (auto simp: ingest_part_000_def)
  next
    case (Inr T)
    show ?thesis
    proof (cases "T = []")
      case True
      with fr assms Pair Inr show ?thesis by (auto simp: ingest_part_000_def)
    next
      case False
      from fr assms have "identified w inp T T (identify_and_tag w inp T T st2)"
        by (intro identify_and_tag_identified) simp_all
      with False show ?thesis
        unfolding ingest_part_000_stop [OF Pair [unfolded Inr] False] by blast
    qed
  qed
qed

lemma load_and_tag_shape:
  assumes "lookup_calls (trace st) = []" and "tag_calls (trace st) = []"
  shows "(lookup_calls (trace (snd (load_and_tag w inp f st))) = []
          \<and> tag_calls (trace (snd (load_and_tag w inp f st))) = []
          \<and> (\<exists>e. fst (load_and_tag w inp f st) = Return None (Some e)))
       \<or> (\<exists>T shown. identified w inp T shown (load_and_tag w inp f st))"
proof (cases "ImageLoad w 0 f")
  case (Inl err)
  with assms show ?thesis by (simp add: load_and_tag_def Let_def)
next
  case (Inr body)
  note ld = this
  show ?thesis
  proof (cases "PipeOutput w 0 body")
    case (Inl err)
    with assms ld show ?thesis by (simp add: load_and_tag_def Let_def)
  next
    case (Inr rsp)
    have "identified w inp (defaultTag_of rsp) rsp (load_and_tag w inp f st)"
      using assms by (simp add: load_and_tag_def Let_def ld Inr identify_and_tag_identified)
    then show ?thesis by blast
  qed
qed

lemma ingest_docker_nix_shape:
  assumes "lookup_calls (trace st) = []" and "tag_calls (trace st) = []"
  shows "(lookup_calls (trace (snd (ingest_docker_nix w inp path st))) = []
          \<and> tag_calls (trace (snd (ingest_docker_nix w inp path st))) = []
          \<and> (\<exists>e. fst (ingest_docker_nix w inp path st) = Return None (Some e)))
       \<or> (\<exists>T shown. identified w inp T shown (ingest_docker_nix w inp path st))"
proof (cases "os_Open w 0 path")
  case (Some err)
  with assms show ?thesis by (simp add: ingest_docker_nix_def Let_def)
next
  case None
  let ?st = "(emit (EvOpen path) (emit (EvSleep 100) st))\<lparr>open_files := open_files st @ [0]\<rparr>"
  have "lookup_calls (trace ?st) = []" "tag_calls (trace ?st) = []" using assms by simp_all
  from load_and_tag_shape [OF this, of w inp 0] show ?thesis
    by (cases "load_and_tag w inp 0 ?st")
       (auto simp: ingest_docker_nix_def Let_def None identified_Close)
qed

lemma build_nix_init:
  assumes "build_nix w inp (init h) = (r, st1)"
  shows "lookup_calls (trace st1) = []" "tag_calls (trace st1) = []" "open_files st1 = []"
    "open_calls (trace st1) = []" "sleep_calls (trace st1) = []" "close_calls (trace st1) = []"
    "load_calls (trace st1) = []"
  using build_nix_frame [OF assms] by simp_all

lemma build_nix_Inl_shape:
  assumes "build_nix w inp st = (Inl x, st')"
  shows "(\<exists>m. x = Panic m) \<or> (\<exists>e. x = Return None (Some e))"
  using assms
proof (cases rule: build_nix_cases)
  case (spawn p st2)
  then show ?thesis
    by (auto simp: spawn_nix_build_def Let_def split: sum.splits)
qed simp_all

lemma Build_shape:
  "(lookup_calls (trace (snd (Build v w inp h))) = []
     \<and> tag_calls (trace (snd (Build v w inp h))) = []
     \<and> ((\<exists>m. fst (Build v w inp h) = Panic m) \<or> (\<exists>e. fst (Build v w inp h) = Return None (Some e))))
   \<or> (\<exists>T shown. (v = Part_000 \<longrightarrow> T \<noteq> []) \<and> identified w inp T shown (Build v w inp h))"
proof (cases "build_nix w inp (init h)")
  case (Pair r st1)
  note i = build_nix_init [OF Pair]
  show ?thesis
  proof (cases r)
    case (Inl x)
    from build_nix_Inl_shape [OF Pair [unfolded Inl]] i show ?thesis
      unfolding Build_early [OF Pair [unfolded Inl]] by auto
  next
    case (Inr path)
    show ?thesis
    proof (cases v)
      case Part_000
      from ingest_part_000_shape [OF i(1,2), of w inp path] show ?thesis
        unfolding Part_000 Build.simps Build_part_000_Inr [OF Pair [unfolded Inr]] by blast
    next
      case Docker_nix_go
      from ingest_docker_nix_shape [OF i(1,2), of w inp path] show ?thesis
        unfolding Docker_nix_go Build.simps Build_docker_nix_Inr [OF Pair [unfolded Inr]] by blast
    qed
  qed
qed

lemma identified_cases:
  assumes "identified w inp T shown B"
  obtains
    (nolookup) err where "GetImageID w T = Inl err" "lookup_calls (trace (snd B)) = [T]"
      "tag_calls (trace (snd B)) = []" "fst B = Return None (Some (lookup_error shown err))"
  | (tagged) i where "GetImageID w T = Inr i" "lookup_calls (trace (snd B)) = [T]"
      "tag_calls (trace (snd B)) = [(i, TestPlan inp @ '':'' @ i)]"
      "fst B = Return (Some \<lparr>ArtifactPath = i\<rparr>) (ImageTag w i (TestPlan inp @ '':'' @ i))"
  using assms by (cases "GetImageID w T") (auto simp: identified_def)

lemma Build_cases:
  obtains
    (early) "lookup_calls (trace (snd (Build v w inp h))) = []"
      "tag_calls (trace (snd (Build v w inp h))) = []"
      "(\<exists>m. fst (Build v w inp h) = Panic m) \<or> (\<exists>e. fst (Build v w inp h) = Return None (Some e))"
  | (nolookup) T shown err where "v = Part_000 \<longrightarrow> T \<noteq> []"
      "GetImageID w T = Inl err" "lookup_calls (trace (snd (Build v w inp h))) = [T]"
      "tag_calls (trace (snd (Build v w inp h))) = []"
      "fst (Build v w inp h) = Return None (Some (lookup_error shown err))"
  | (tagged) T i where "v = Part_000 \<longrightarrow> T \<noteq> []"
      "GetImageID w T = Inr i" "lookup_calls (trace (snd (Build v w inp h))) = [T]"
      "tag_calls (trace (snd (Build v w inp h))) = [(i, TestPlan inp @ '':'' @ i)]"
      "fst (Build v w inp h) =
         Return (Some \<lparr>ArtifactPath = i\<rparr>) (ImageTag w i (TestPlan inp @ '':'' @ i))"
proof -
  from Build_shape [of v w inp h] show ?thesis
  proof (elim disjE conjE exE)
    fix T shown
    assume ne: "v = Part_000 \<longrightarrow> T \<noteq> []" and "identified w inp T shown (Build v w inp h)"
    from this(2) show ?thesis
    proof (cases rule: identified_cases)
      case (nolookup err)
      with ne show ?thesis by (rule that(2))
    next
      case (tagged i)
      with ne show ?thesis by (rule that(3))
    qed
  qed (use early in blast)+
qed

text \<open>
  Claim C7. In every run of either file there is at most one tag call, made on the
  identifier the lookup gave. If that call fails with \<open>e\<close>, \<open>Build\<close> returns the output
  holding the identifier together with \<open>e\<close>. An output is returned exactly when the tag
  call was made: every return without it has no output and a non-nil error, and an
  output with an error can only come from a failed tag call.
\<close>
theorem C7_tag_failure_keeps_output:
  "(\<forall>i t e. tag_calls (trace (snd (Build v w inp h))) = [(i, t)] \<and> ImageTag w i t = Some e \<longrightarrow>
       fst (Build v w inp h) = Return (Some \<lparr>ArtifactPath = i\<rparr>) (Some e)
       \<and> (\<exists>T. lookup_calls (trace (snd (Build v w inp h))) = [T] \<and> GetImageID w T = Inr i))
   \<and> (\<forall>out err. fst (Build v w inp h) = Return out err \<longrightarrow>
         (out = None \<longleftrightarrow> tag_calls (trace (snd (Build v w inp h))) = [])
         \<and> (out = None \<longrightarrow> err \<noteq> None))
   \<and> (\<forall>out e. fst (Build v w inp h) = Return (Some out) (Some e) \<longrightarrow>
         tag_calls (trace (snd (Build v w inp h))) =
           [(ArtifactPath out, TestPlan inp @ '':'' @ ArtifactPath out)]
         \<and> ImageTag w (ArtifactPath out) (TestPlan inp @ '':'' @ ArtifactPath out) = Some e)
   \<and> length (tag_calls (trace (snd (Build v w inp h)))) \<le> 1"
proof (cases rule: Build_cases [of v w inp h])
  case early
  then show ?thesis by auto
next
  case (nolookup T shown err)
  then show ?thesis by auto
next
  case (tagged T i)
  then show ?thesis by auto
qed

theorem C7_tag_failure_keeps_output_witness:
  "tag_calls (trace (snd (Build Part_000 (world0\<lparr>ImageTag := \<lambda>i t. Some (ErrorString ''tag failed'')\<rparr>) in0 heap0)))
     = [(''sha256:deadbeef'', ''mytest:sha256:deadbeef'')]
   \<and> fst (Build Part_000 (world0\<lparr>ImageTag := \<lambda>i t. Some (ErrorString ''tag failed'')\<rparr>) in0 heap0)
     = Return (Some \<lparr>ArtifactPath = ''sha256:deadbeef''\<rparr>) (Some (ErrorString ''tag failed''))
   \<and> fst (Build Docker_nix_go world0 in0 heap0)
     = Return None (Some (WrapError ''docker image load failed: EOF'' (ErrorString ''EOF'')))
   \<and> tag_calls (trace (snd (Build Docker_nix_go world0 in0 heap0))) = []"
proof -
  let ?w = "world0\<lparr>ImageTag := \<lambda>i t. Some (ErrorString ''tag failed'')\<rparr>"
  have a: "tag_calls (trace (snd (Build Part_000 ?w in0 heap0)))
     = [(''sha256:deadbeef'', ''mytest:sha256:deadbeef'')]"
    by code_simp
  have b: "ImageTag ?w ''sha256:deadbeef'' ''mytest:sha256:deadbeef'' = Some (ErrorString ''tag failed'')"
    by simp
  have c: "fst (Build Docker_nix_go world0 in0 heap0)
     = Return None (Some (WrapError ''docker image load failed: EOF'' (ErrorString ''EOF'')))"
    by code_simp
  from C7_tag_failure_keeps_output [of Part_000 ?w in0 heap0] a b
  have d: "fst (Build Part_000 ?w in0 heap0)
     = Return (Some \<lparr>ArtifactPath = ''sha256:deadbeef''\<rparr>) (Some (ErrorString ''tag failed''))"
    by blast
  from C7_tag_failure_keeps_output [of Docker_nix_go world0 in0 heap0] c
  have e: "tag_calls (trace (snd (Build Docker_nix_go world0 in0 heap0))) = []"
    by blast
  from a d c e show ?thesis by simp
qed

lemma Build_part_000_fst:
  assumes "fst (build_nix w inp (init h)) = Inr path"
  shows "Build Part_000 w inp h = ingest_part_000 w inp path (snd (build_nix w inp (init h)))"
  using assms by (cases "build_nix w inp (init h)") (simp add: Build_part_000_def)

lemma Build_docker_nix_fst:
  assumes "fst (build_nix w inp (init h)) = Inr path"
  shows "Build Docker_nix_go w inp h = ingest_docker_nix w inp path (snd (build_nix w inp (init h)))"
  using assms by (cases "build_nix w inp (init h)") (simp add: Build_docker_nix_def)

lemma build_nix_snd_init:
  "lookup_calls (trace (snd (build_nix w inp (init h)))) = []"
  "tag_calls (trace (snd (build_nix w inp (init h)))) = []"
  "open_files (snd (build_nix w inp (init h))) = []"
  "open_calls (trace (snd (build_nix w inp (init h)))) = []"
  "sleep_calls (trace (snd (build_nix w inp (init h)))) = []"
  "close_calls (trace (snd (build_nix w inp (init h)))) = []"
  "load_calls (trace (snd (build_nix w inp (init h)))) = []"
  using build_nix_init [of w inp h "fst (build_nix w inp (init h))" "snd (build_nix w inp (init h))"]
  by simp_all

lemma ingest_part_000_identified:
  assumes "fst (load_loop w path 0 [] st) = Inr T" and "T \<noteq> []"
    and "lookup_calls (trace st) = []" and "tag_calls (trace st) = []"
  shows "identified w inp T T (ingest_part_000 w inp path st)"
proof -
  obtain st2 where ll: "load_loop w path 0 [] st = (Inr T, st2)"
    using assms(1) by (cases "load_loop w path 0 [] st") simp
  from load_loop_frame [OF ll] assms(3,4)
  have "lookup_calls (trace st2) = []" "tag_calls (trace st2) = []" by simp_all
  then show ?thesis
    unfolding ingest_part_000_stop [OF ll assms(2)] by (rule identify_and_tag_identified)
qed

lemma ingest_docker_nix_identified:
  assumes "os_Open w 0 path = None" and "ImageLoad w 0 0 = Inr body"
    and "PipeOutput w 0 body = Inr rsp"
    and "lookup_calls (trace st) = []" and "tag_calls (trace st) = []"
  shows "identified w inp (defaultTag_of rsp) rsp (ingest_docker_nix w inp path st)"
  using assms
  by (simp add: ingest_docker_nix_def Let_def load_and_tag_def split_beta
      identified_Close [of w inp _ _ "fst x" for x, simplified] identify_and_tag_identified)

lemma identified_explicit:
  assumes "identified w inp T shown B"
  shows "lookup_calls (trace (snd B)) = [T]
     \<and> (\<forall>i. GetImageID w T = Inr i \<longrightarrow>
          tag_calls (trace (snd B)) = [(i, TestPlan inp @ '':'' @ i)]
          \<and> fst B = Return (Some \<lparr>ArtifactPath = i\<rparr>) (ImageTag w i (TestPlan inp @ '':'' @ i)))
     \<and> (\<forall>err. GetImageID w T = Inl err \<longrightarrow>
          tag_calls (trace (snd B)) = [] \<and> fst B = Return None (Some (lookup_error shown err)))"
  using assms by (cases rule: identified_cases) simp_all

text \<open>
  Claim C6. Let the build tool have printed \<open>path\<close>. When the load stage ends with the
  default tag \<open>T\<close> (in \<open>part_000\<close>: the loop is left with a non-empty \<open>T\<close>; in
  \<open>docker_nix.go\<close>: the file opened and the one attempt parsed \<open>T\<close>), the run asks for
  the identifier of \<open>T\<close> exactly once; when the answer is \<open>i\<close> it makes exactly one tag
  call, of the tag \<open>plan:i\<close> on \<open>i\<close>, and the output returned holds \<open>i\<close>; when the lookup
  fails nothing is tagged and no output is returned.
\<close>
theorem C6_identifier_and_tag:
  assumes "fst (build_nix w inp (init h)) = Inr path"
  shows "(fst (load_loop w path 0 [] (snd (build_nix w inp (init h)))) = Inr T \<and> T \<noteq> [] \<longrightarrow>
            lookup_calls (trace (snd (Build Part_000 w inp h))) = [T]
            \<and> (\<forall>i. GetImageID w T = Inr i \<longrightarrow>
                 tag_calls (trace (snd (Build Part_000 w inp h))) = [(i, TestPlan inp @ '':'' @ i)]
                 \<and> fst (Build Part_000 w inp h) =
                     Return (Some \<lparr>ArtifactPath = i\<rparr>) (ImageTag w i (TestPlan inp @ '':'' @ i)))
            \<and> (\<forall>err. GetImageID w T = Inl err \<longrightarrow>
                 tag_calls (trace (snd (Build Part_000 w inp h))) = []
                 \<and> fst (Build Part_000 w inp h) = Return None (Some (lookup_error T err))))
       \<and> (os_Open w 0 path = None \<and> attempt_tag w 0 = Some T \<longrightarrow>
            lookup_calls (trace (snd (Build Docker_nix_go w inp h))) = [T]
            \<and> (\<forall>i. GetImageID w T = Inr i \<longrightarrow>
                 tag_calls (trace (snd (Build Docker_nix_go w inp h))) = [(i, TestPlan inp @ '':'' @ i)]
                 \<and> fst (Build Docker_nix_go w inp h) =
                     Return (Some \<lparr>ArtifactPath = i\<rparr>) (ImageTag w i (TestPlan inp @ '':'' @ i)))
            \<and> (\<forall>err. GetImageID w T = Inl err \<longrightarrow>
                 tag_calls (trace (snd (Build Docker_nix_go w inp h))) = []
                 \<and> (\<exists>e. fst (Build Docker_nix_go w inp h) = Return None (Some e))))"
proof (intro conjI impI)
  assume a: "fst (load_loop w path 0 [] (snd (build_nix w inp (init h)))) = Inr T \<and> T \<noteq> []"
  then have "identified w inp T T (Build Part_000 w inp h)"
    unfolding Build_part_000_fst [OF assms]
    by (intro ingest_part_000_identified build_nix_snd_init) simp_all
  from identified_explicit [OF this]
  show "lookup_calls (trace (snd (Build Part_000 w inp h))) = [T]"
    and "\<forall>i. GetImageID w T = Inr i \<longrightarrow>
                 tag_calls (trace (snd (Build Part_000 w inp h))) = [(i, TestPlan inp @ '':'' @ i)]
                 \<and> fst (Build Part_000 w inp h) =
                     Return (Some \<lparr>ArtifactPath = i\<rparr>) (ImageTag w i (TestPlan inp @ '':'' @ i))"
    and "\<forall>err. GetImageID w T = Inl err \<longrightarrow>
                 tag_calls (trace (snd (Build Part_000 w inp h))) = []
                 \<and> fst (Build Part_000 w inp h) = Return None (Some (lookup_error T err))"
    by blast+
next
  assume a: "os_Open w 0 path = None \<and> attempt_tag w 0 = Some T"
  then obtain body rsp where ld: "ImageLoad w 0 0 = Inr body"
    and pp: "PipeOutput w 0 body = Inr rsp" and T: "T = defaultTag_of rsp"
    by (auto simp: attempt_tag_def split: sum.splits)
  from a have "identified w inp T rsp (Build Docker_nix_go w inp h)"
    unfolding Build_docker_nix_fst [OF assms] T
    by (intro ingest_docker_nix_identified [OF _ ld pp] build_nix_snd_init) simp
  from identified_explicit [OF this]
  show "lookup_calls (trace (snd (Build Docker_nix_go w inp h))) = [T]"
    and "\<forall>i. GetImageID w T = Inr i \<longrightarrow>
                 tag_calls (trace (snd (Build Docker_nix_go w inp h))) = [(i, TestPlan inp @ '':'' @ i)]
                 \<and> fst (Build Docker_nix_go w inp h) =
                     Return (Some \<lparr>ArtifactPath = i\<rparr>) (ImageTag w i (TestPlan inp @ '':'' @ i))"
    and "\<forall>err. GetImageID w T = Inl err \<longrightarrow>
                 tag_calls (trace (snd (Build Docker_nix_go w inp h))) = []
                 \<and> (\<exists>e. fst (Build Docker_nix_go w inp h) = Return None (Some e))"
    by blast+
qed

lemma load_loop_until:
  assumes "k < 2"
    and "\<forall>j<k. os_Open w j path = None \<and> (attempt_tag w j = None \<or> attempt_tag w j = Some [])"
    and "os_Open w k path = None" and "attempt_tag w k = Some T" and "T \<noteq> []"
  shows "\<exists>st2. load_loop w path 0 [] st = (Inr T, st2)
           \<and> sleep_calls (trace st2) = sleep_calls (trace st) @ replicate k 1000
           \<and> open_calls (trace st2) = open_calls (trace st) @ replicate (Suc k) path
           \<and> load_calls (trace st2) = load_calls (trace st) @ [0..<Suc k]
           \<and> open_files st2 = open_files st @ [0..<Suc k]"
proof -
  from assms(1) consider "k = 0" | "k = Suc 0" by arith
  then show ?thesis
  proof cases
    case 1
    from load_loop_stop [OF _ assms(3,4,5) [unfolded 1], of "[]" st] show ?thesis
      by (simp add: 1)
  next
    case 2
    from assms(2) have z: "os_Open w 0 path = None"
      "attempt_tag w 0 = None \<or> attempt_tag w 0 = Some []" by (simp_all add: 2)
    from load_loop_retry [OF _ z, of st] obtain st1 where
      s1: "load_loop w path 0 [] st = load_loop w path (Suc 0) [] st1"
        "sleep_calls (trace st1) = sleep_calls (trace st) @ [1000]"
        "open_calls (trace st1) = open_calls (trace st) @ [path]"
        "load_calls (trace st1) = load_calls (trace st) @ [0]"
        "open_files st1 = open_files st @ [0]"
      by auto
    from load_loop_stop [OF _ assms(3,4,5) [unfolded 2], of "[]" st1] show ?thesis
      unfolding s1(1) by (auto simp: 2 s1)
  qed
qed

lemma load_loop_exhausted:
  assumes "\<forall>i<2. os_Open w i path = None \<and> (attempt_tag w i = None \<or> attempt_tag w i = Some [])"
  shows "\<exists>st2. load_loop w path 0 [] st = (Inr [], st2)
           \<and> sleep_calls (trace st2) = sleep_calls (trace st) @ [1000, 1000]
           \<and> open_calls (trace st2) = open_calls (trace st) @ [path, path]
           \<and> load_calls (trace st2) = load_calls (trace st) @ [0, 1]
           \<and> open_files st2 = open_files st @ [0, 1]"
proof -
  from assms have z: "os_Open w 0 path = None"
      "attempt_tag w 0 = None \<or> attempt_tag w 0 = Some []"
    and o: "os_Open w (Suc 0) path = None"
      "attempt_tag w (Suc 0) = None \<or> attempt_tag w (Suc 0) = Some []"
    by simp_all
  from load_loop_retry [OF _ z, of st] obtain st1 where
    s1: "load_loop w path 0 [] st = load_loop w path (Suc 0) [] st1"
      "sleep_calls (trace st1) = sleep_calls (trace st) @ [1000]"
      "open_calls (trace st1) = open_calls (trace st) @ [path]"
      "load_calls (trace st1) = load_calls (trace st) @ [0]"
      "open_files st1 = open_files st @ [0]"
    by auto
  from load_loop_retry [OF _ o, of st1] obtain st2 where
    s2: "load_loop w path (Suc 0) [] st1 = load_loop w path (Suc (Suc 0)) [] st2"
      "sleep_calls (trace st2) = sleep_calls (trace st1) @ [1000]"
      "open_calls (trace st2) = open_calls (trace st1) @ [path]"
      "load_calls (trace st2) = load_calls (trace st1) @ [Suc 0]"
      "open_files st2 = open_files st1 @ [Suc 0]"
    by auto
  show ?thesis
    unfolding s1(1) s2(1) by (simp add: load_loop_done s1 s2)
qed

text \<open>
  Claim C3, for \<open>part_000\<close>. Let the file open on the attempts \<open>0\<close> to \<open>k\<close>, with \<open>k\<close>
  below the bound \<open>2\<close>; let the ingestion of every attempt before \<open>k\<close> fail (the call
  fails, its response cannot be read, or the tag parsed is empty) and attempt \<open>k\<close> parse
  the non-empty tag \<open>T\<close>. Then the identifier asked for is that of \<open>T\<close>, and what \<open>Build\<close>
  returns is a function of \<open>T\<close> and of the answers of the lookup and of the tag call
  alone: \<open>k\<close> does not occur in it, so a success at the second attempt returns what a
  success at the first returns, the output with no error when lookup and tag call
  succeed. The retries show only in the trace: \<open>k\<close> sleeps of one second and \<open>k + 1\<close>
  opens. (A file that does not open ends the run: claim C4.)
\<close>
theorem C3_retry_transparency:
  assumes "fst (build_nix w inp (init h)) = Inr path"
    and "k < 2"
    and "\<forall>j<k. os_Open w j path = None \<and> (attempt_tag w j = None \<or> attempt_tag w j = Some [])"
    and "os_Open w k path = None" and "attempt_tag w k = Some T" and "T \<noteq> []"
  shows "lookup_calls (trace (snd (Build Part_000 w inp h))) = [T]
       \<and> fst (Build Part_000 w inp h) =
           (case GetImageID w T of
              Inl err \<Rightarrow> Return None (Some (lookup_error T err))
            | Inr i \<Rightarrow> Return (Some \<lparr>ArtifactPath = i\<rparr>) (ImageTag w i (TestPlan inp @ '':'' @ i)))
       \<and> sleep_calls (trace (snd (Build Part_000 w inp h))) = replicate k 1000
       \<and> open_calls (trace (snd (Build Part_000 w inp h))) = replicate (Suc k) path"
proof -
  let ?st1 = "snd (build_nix w inp (init h))"
  from load_loop_until [OF assms(2-6), of ?st1] obtain st2 where
    ll: "load_loop w path 0 [] ?st1 = (Inr T, st2)"
    and s: "sleep_calls (trace st2) = replicate k 1000"
    and p: "open_calls (trace st2) = replicate (Suc k) path"
    by (auto simp: build_nix_snd_init)
  from ll have "fst (load_loop w path 0 [] ?st1) = Inr T" by simp
  from ingest_part_000_identified [OF this assms(6) build_nix_snd_init(1,2), of inp]
  have "identified w inp T T (Build Part_000 w inp h)"
    unfolding Build_part_000_fst [OF assms(1)] .
  then show ?thesis
    unfolding Build_part_000_fst [OF assms(1)] ingest_part_000_stop [OF ll assms(6)]
    by (cases rule: identified_cases) (simp_all add: identify_and_tag_frame2 s p)
qed

lemma build_nix_world0':
  "fst (build_nix world0 in0 (init heap0)) = Inr ''/nix/store/abc.tar''"
  by (simp add: build_nix_def world0_def in0_def heap0_def cfg0_def fill_default_configs_def
      spawn_nix_build_def Let_def target_def nix_argv_def TrimRight_def crlf_def)

lemma defaultTag_of_scenario:
  "defaultTag_of (''Loaded image: myimg:latest'' @ crlf) = ''myimg:latest''"
  by (simp add: defaultTag_of_def TrimPrefix_def HasPrefix_def TrimRight_def crlf_def)

lemma attempt_tag_world0:
  "attempt_tag world0 0 = None" "attempt_tag world0 (Suc 0) = Some ''myimg:latest''"
  by (simp_all add: attempt_tag_def world0_def defaultTag_of_def TrimPrefix_def HasPrefix_def
      TrimRight_def crlf_def)

theorem C5_build_tool_failure_witness:
  "exec_calls (trace (snd (Build Part_000
      (world0\<lparr>cmd_Output := \<lambda>argv. Inl (ExitError ''exit status 1'' ''error: flake not found'')\<rparr>)
      in0 heap0))) = [nix_argv ''/plans/mytest#legacyPackages.x86_64-linux.mytest-image'']
   \<and> fst (Build Part_000
      (world0\<lparr>cmd_Output := \<lambda>argv. Inl (ExitError ''exit status 1'' ''error: flake not found'')\<rparr>)
      in0 heap0) =
     Return None (Some (WrapError ''nix build failed: exit status 1''
                          (ExitError ''exit status 1'' ''error: flake not found'')))
   \<and> open_calls (trace (snd (Build Part_000
      (world0\<lparr>cmd_Output := \<lambda>argv. Inl (ExitError ''exit status 1'' ''error: flake not found'')\<rparr>)
      in0 heap0))) = []"
proof -
  let ?w = "world0\<lparr>cmd_Output := \<lambda>argv. Inl (ExitError ''exit status 1'' ''error: flake not found'')\<rparr>"
  have a: "exec_calls (trace (snd (Build Part_000 ?w in0 heap0)))
            = [nix_argv ''/plans/mytest#legacyPackages.x86_64-linux.mytest-image'']"
    by code_simp
  have b: "cmd_Output ?w (nix_argv ''/plans/mytest#legacyPackages.x86_64-linux.mytest-image'')
            = Inl (ExitError ''exit status 1'' ''error: flake not found'')"
    by simp
  from C5_build_tool_failure [OF a b] a show ?thesis by simp
qed

theorem C3_retry_transparency_witness:
  "fst (build_nix world0 in0 (init heap0)) = Inr ''/nix/store/abc.tar''
   \<and> os_Open world0 0 ''/nix/store/abc.tar'' = None \<and> attempt_tag world0 0 = None
   \<and> os_Open world0 1 ''/nix/store/abc.tar'' = None \<and> attempt_tag world0 1 = Some ''myimg:latest''
   \<and> lookup_calls (trace (snd (Build Part_000 world0 in0 heap0))) = [''myimg:latest'']
   \<and> fst (Build Part_000 world0 in0 heap0) = Return (Some \<lparr>ArtifactPath = ''sha256:deadbeef''\<rparr>) None
   \<and> sleep_calls (trace (snd (Build Part_000 world0 in0 heap0))) = [1000]"
proof -
  have op: "os_Open world0 j ''/nix/store/abc.tar'' = None" for j by (simp add: world0_def)
  have g: "GetImageID world0 ''myimg:latest'' = Inr ''sha256:deadbeef''"
    "ImageTag world0 x y = None" for x y by (simp_all add: world0_def)
  have "\<forall>j<Suc 0. os_Open world0 j ''/nix/store/abc.tar'' = None
          \<and> (attempt_tag world0 j = None \<or> attempt_tag world0 j = Some [])"
    by (simp add: op attempt_tag_world0)
  from C3_retry_transparency [OF build_nix_world0' _ this op attempt_tag_world0(2)]
  show ?thesis by (simp add: build_nix_world0' op attempt_tag_world0 g)
qed

theorem C6_identifier_and_tag_witness:
  "fst (build_nix world0 in0 (init heap0)) = Inr ''/nix/store/abc.tar''
   \<and> fst (load_loop world0 ''/nix/store/abc.tar'' 0 [] (snd (build_nix world0 in0 (init heap0))))
       = Inr ''myimg:latest''
   \<and> GetImageID world0 ''myimg:latest'' = Inr ''sha256:deadbeef''
   \<and> lookup_calls (trace (snd (Build Part_000 world0 in0 heap0))) = [''myimg:latest'']
   \<and> tag_calls (trace (snd (Build Part_000 world0 in0 heap0))) =
       [(''sha256:deadbeef'', ''mytest:sha256:deadbeef'')]
   \<and> fst (Build Part_000 world0 in0 heap0) = Return (Some \<lparr>ArtifactPath = ''sha256:deadbeef''\<rparr>) None
   \<and> os_Open (world0\<lparr>ImageLoad := \<lambda>i f. Inr ''body''\<rparr>) 0 ''/nix/store/abc.tar'' = None
   \<and> attempt_tag (world0\<lparr>ImageLoad := \<lambda>i f. Inr ''body''\<rparr>) 0 = Some ''myimg:latest''
   \<and> lookup_calls (trace (snd (Build Docker_nix_go (world0\<lparr>ImageLoad := \<lambda>i f. Inr ''body''\<rparr>) in0 heap0)))
       = [''myimg:latest'']
   \<and> fst (Build Docker_nix_go (world0\<lparr>ImageLoad := \<lambda>i f. Inr ''body''\<rparr>) in0 heap0)
       = Return (Some \<lparr>ArtifactPath = ''sha256:deadbeef''\<rparr>) None"
proof -
  let ?w = "world0\<lparr>ImageLoad := \<lambda>i f. Inr ''body''\<rparr>"
  have l: "fst (load_loop world0 ''/nix/store/abc.tar'' 0 [] (snd (build_nix world0 in0 (init heap0))))
       = Inr ''myimg:latest''"
    by code_simp
  have g: "GetImageID world0 ''myimg:latest'' = Inr ''sha256:deadbeef''"
    "ImageTag world0 x y = None" for x y by (simp_all add: world0_def)
  have g': "GetImageID ?w ''myimg:latest'' = Inr ''sha256:deadbeef''"
    "ImageTag ?w x y = None" for x y by (simp_all add: world0_def)
  have b: "fst (build_nix ?w in0 (init heap0)) = Inr ''/nix/store/abc.tar''"
    by (simp add: build_nix_def world0_def in0_def heap0_def cfg0_def fill_default_configs_def
      spawn_nix_build_def Let_def target_def nix_argv_def TrimRight_def crlf_def)
  have op: "os_Open ?w 0 ''/nix/store/abc.tar'' = None" by (simp add: world0_def)
  have t: "attempt_tag ?w 0 = Some ''myimg:latest''"
    by (simp add: attempt_tag_def world0_def defaultTag_of_def TrimPrefix_def HasPrefix_def
      TrimRight_def crlf_def)
  have p: "TestPlan in0 = ''mytest''" by (simp add: in0_def)
  have op0: "os_Open world0 j x = None" for j x by (simp add: world0_def)
  from C6_identifier_and_tag [OF build_nix_world0', of "''myimg:latest''"]
       C6_identifier_and_tag [OF b, of "''myimg:latest''"]
  show ?thesis by (simp add: build_nix_world0' l g g' op0 t p)
qed

lemma ingest_part_000_exhausted:
  assumes "\<forall>i<2. os_Open w i path = None \<and> (attempt_tag w i = None \<or> attempt_tag w i = Some [])"
  shows "fst (ingest_part_000 w inp path st) =
           Return None (Some (ErrorString ''fail to load docker image''))
       \<and> lookup_calls (trace (snd (ingest_part_000 w inp path st))) = lookup_calls (trace st)
       \<and> tag_calls (trace (snd (ingest_part_000 w inp path st))) = tag_calls (trace st)
       \<and> sleep_calls (trace (snd (ingest_part_000 w inp path st))) = sleep_calls (trace st) @ [1000, 1000]
       \<and> open_calls (trace (snd (ingest_part_000 w inp path st))) = open_calls (trace st) @ [path, path]"
proof -
  from load_loop_exhausted [OF assms, of st] obtain st2 where
    ll: "load_loop w path 0 [] st = (Inr [], st2)"
    and c: "sleep_calls (trace st2) = sleep_calls (trace st) @ [1000, 1000]"
      "open_calls (trace st2) = open_calls (trace st) @ [path, path]"
    by blast
  from load_loop_frame [OF ll] c show ?thesis
    by (simp add: ingest_part_000_def ll)
qed

lemma ingest_docker_nix_load_fail:
  assumes "os_Open w 0 path = None" and "ImageLoad w 0 0 = Inl e"
  shows "fst (ingest_docker_nix w inp path st) =
           Return None (Some (Errorf_w ''docker image load failed: '' e))"
  using assms by (simp add: ingest_docker_nix_def load_and_tag_def Let_def)

lemma ingest_docker_nix_pipe_fail:
  assumes "os_Open w 0 path = None" and "ImageLoad w 0 0 = Inr body"
    and "PipeOutput w 0 body = Inl e"
  shows "fst (ingest_docker_nix w inp path st) =
           Return None (Some (Errorf_w ''couldnt read docker image load response: '' e))"
  using assms by (simp add: ingest_docker_nix_def load_and_tag_def Let_def)

text \<open>
  Claim C1, as amended. Let the build tool have printed \<open>path\<close>. In \<open>part_000\<close>: when
  the file opens on both attempts and each attempt fails in its ingestion call, in the
  reading of its response or by an empty tag, \<open>Build\<close> returns the error
  \<open>fail to load docker image\<close> and no output, and asks for no identifier; and whenever
  \<open>Build\<close> returns an output, the tag it looked up was not empty. In
  \<open>docker_nix.go\<close>, which has one attempt and no load-exhausted error: a failed
  ingestion call and a response that cannot be read each return their own error, which
  wraps the cause, and no output. (What \<open>docker_nix.go\<close> does with an empty tag is not
  part of the amended claim; the counterexample below evaluates it.)
\<close>
theorem C1_no_output_without_tag:
  assumes "fst (build_nix w inp (init h)) = Inr path"
  shows "((\<forall>i<2. os_Open w i path = None \<and> (attempt_tag w i = None \<or> attempt_tag w i = Some [])) \<longrightarrow>
            fst (Build Part_000 w inp h) =
              Return None (Some (ErrorString ''fail to load docker image''))
            \<and> lookup_calls (trace (snd (Build Part_000 w inp h))) = []
            \<and> tag_calls (trace (snd (Build Part_000 w inp h))) = [])
       \<and> (\<forall>out err. fst (Build Part_000 w inp h) = Return (Some out) err \<longrightarrow>
            (\<exists>T. T \<noteq> [] \<and> lookup_calls (trace (snd (Build Part_000 w inp h))) = [T]
                 \<and> GetImageID w T = Inr (ArtifactPath out)))
       \<and> (\<forall>e. os_Open w 0 path = None \<and> ImageLoad w 0 0 = Inl e \<longrightarrow>
            fst (Build Docker_nix_go w inp h) =
              Return None (Some (Errorf_w ''docker image load failed: '' e)))
       \<and> (\<forall>body e. os_Open w 0 path = None \<and> ImageLoad w 0 0 = Inr body
              \<and> PipeOutput w 0 body = Inl e \<longrightarrow>
            fst (Build Docker_nix_go w inp h) =
              Return None (Some (Errorf_w ''couldnt read docker image load response: '' e)))"
proof (intro conjI allI impI)
  assume "\<forall>i<2. os_Open w i path = None \<and> (attempt_tag w i = None \<or> attempt_tag w i = Some [])"
  from ingest_part_000_exhausted [OF this, of inp "snd (build_nix w inp (init h))"]
  show "fst (Build Part_000 w inp h) = Return None (Some (ErrorString ''fail to load docker image''))"
    and "lookup_calls (trace (snd (Build Part_000 w inp h))) = []"
    and "tag_calls (trace (snd (Build Part_000 w inp h))) = []"
    unfolding Build_part_000_fst [OF assms] by (simp_all add: build_nix_snd_init)
next
  fix out err
  assume r: "fst (Build Part_000 w inp h) = Return (Some out) err"
  show "\<exists>T. T \<noteq> [] \<and> lookup_calls (trace (snd (Build Part_000 w inp h))) = [T]
                 \<and> GetImageID w T = Inr (ArtifactPath out)"
  proof (cases rule: Build_cases [of Part_000 w inp h])
    case early
    with r show ?thesis by auto
  next
    case (nolookup T shown e)
    with r show ?thesis by auto
  next
    case (tagged T i)
    with r show ?thesis by auto
  qed
next
  fix e
  assume "os_Open w 0 path = None \<and> ImageLoad w 0 0 = Inl e"
  then show "fst (Build Docker_nix_go w inp h) =
              Return None (Some (Errorf_w ''docker image load failed: '' e))"
    unfolding Build_docker_nix_fst [OF assms] by (simp add: ingest_docker_nix_load_fail)
next
  fix body e
  assume "os_Open w 0 path = None \<and> ImageLoad w 0 0 = Inr body \<and> PipeOutput w 0 body = Inl e"
  then show "fst (Build Docker_nix_go w inp h) =
              Return None (Some (Errorf_w ''couldnt read docker image load response: '' e))"
    unfolding Build_docker_nix_fst [OF assms] by (simp add: ingest_docker_nix_pipe_fail)
qed

theorem C1_no_output_without_tag_witness:
  "fst (build_nix (world0\<lparr>ImageLoad := \<lambda>i f. Inl (ErrorString ''EOF'')\<rparr>) in0 (init heap0))
      = Inr ''/nix/store/abc.tar''
   \<and> attempt_tag (world0\<lparr>ImageLoad := \<lambda>i f. Inl (ErrorString ''EOF'')\<rparr>) 0 = None
   \<and> attempt_tag (world0\<lparr>ImageLoad := \<lambda>i f. Inl (ErrorString ''EOF'')\<rparr>) 1 = None
   \<and> fst (Build Part_000 (world0\<lparr>ImageLoad := \<lambda>i f. Inl (ErrorString ''EOF'')\<rparr>) in0 heap0)
      = Return None (Some (ErrorString ''fail to load docker image''))
   \<and> fst (Build Docker_nix_go (world0\<lparr>ImageLoad := \<lambda>i f. Inl (ErrorString ''EOF'')\<rparr>) in0 heap0)
      = Return None (Some (WrapError ''docker image load failed: EOF'' (ErrorString ''EOF'')))"
proof -
  let ?w = "world0\<lparr>ImageLoad := \<lambda>i f. Inl (ErrorString ''EOF'')\<rparr>"
  have b: "fst (build_nix ?w in0 (init heap0)) = Inr ''/nix/store/abc.tar''"
    by (simp add: build_nix_def world0_def in0_def heap0_def cfg0_def fill_default_configs_def
      spawn_nix_build_def Let_def target_def nix_argv_def TrimRight_def crlf_def)
  have op0: "os_Open world0 j x = None" for j x by (simp add: world0_def)
  have t: "attempt_tag ?w j = None" for j by (simp add: attempt_tag_def)
  from C1_no_output_without_tag [OF b]
  show ?thesis by (simp add: b op0 t Errorf_w_def)
qed

theorem C1_no_output_without_tag_counterexample:
  "attempt_tag (world0\<lparr>ImageLoad := \<lambda>i f. Inr ''body'', PipeOutput := \<lambda>i b. Inr [],
                        GetImageID := \<lambda>t. Inr ''sha256:0''\<rparr>) 0 = Some []
   \<and> fst (Build Docker_nix_go (world0\<lparr>ImageLoad := \<lambda>i f. Inr ''body'', PipeOutput := \<lambda>i b. Inr [],
                        GetImageID := \<lambda>t. Inr ''sha256:0''\<rparr>) in0 heap0)
      = Return (Some \<lparr>ArtifactPath = ''sha256:0''\<rparr>) None
   \<and> fst (Build Docker_nix_go (world0\<lparr>ImageLoad := \<lambda>i f. Inr ''body'', PipeOutput := \<lambda>i b. Inr [],
                        GetImageID := \<lambda>t. Inl (ErrorString ''No such image: '')\<rparr>) in0 heap0)
      = Return None (Some (WrapError ''couldnt get docker image id: , No such image: ''
                             (ErrorString ''No such image: '')))"
proof -
  have a: "attempt_tag (world0\<lparr>ImageLoad := \<lambda>i f. Inr ''body'', PipeOutput := \<lambda>i b. Inr [],
                        GetImageID := \<lambda>t. Inr ''sha256:0''\<rparr>) 0 = Some []"
    by (simp add: attempt_tag_def defaultTag_of_def TrimPrefix_def HasPrefix_def TrimRight_def)
  have b: "fst (Build Docker_nix_go (world0\<lparr>ImageLoad := \<lambda>i f. Inr ''body'', PipeOutput := \<lambda>i b. Inr [],
                        GetImageID := \<lambda>t. Inr ''sha256:0''\<rparr>) in0 heap0)
      = Return (Some \<lparr>ArtifactPath = ''sha256:0''\<rparr>) None"
    by code_simp
  have c: "fst (Build Docker_nix_go (world0\<lparr>ImageLoad := \<lambda>i f. Inr ''body'', PipeOutput := \<lambda>i b. Inr [],
                        GetImageID := \<lambda>t. Inl (ErrorString ''No such image: '')\<rparr>) in0 heap0)
      = Return None (Some (WrapError ''couldnt get docker image id: , No such image: ''
                             (ErrorString ''No such image: '')))"
    by code_simp
  from a b c show ?thesis by simp
qed

lemma load_loop_last:
  "open_calls (trace (snd (load_loop w path (Suc 0) t st))) = open_calls (trace st) @ [path]
   \<and> (\<exists>rest. sleep_calls (trace (snd (load_loop w path (Suc 0) t st))) = sleep_calls (trace st) @ rest)"
proof -
  have lt: "Suc 0 < 2" by simp
  have dn: "\<not> Suc (Suc 0) < 2" by simp
  show ?thesis
  proof (cases "os_Open w (Suc 0) path")
    case (Some err)
    then show ?thesis by (simp add: load_loop_open_fail [OF lt])
  next
    case None
    note op = this
    show ?thesis
    proof (cases "ImageLoad w (Suc 0) (Suc 0)")
      case (Inl err)
      show ?thesis
        unfolding load_loop_load_fail [OF lt op Inl] load_loop_done [OF dn] by simp
    next
      case (Inr body)
      note ld = this
      show ?thesis
      proof (cases "PipeOutput w (Suc 0) body")
        case (Inl err)
        show ?thesis
          unfolding load_loop_pipe_fail [OF lt op ld Inl] load_loop_done [OF dn] by simp
      next
        case (Inr rsp)
        show ?thesis
        proof (cases "defaultTag_of rsp = []")
          case True
          show ?thesis
            unfolding load_loop_empty [OF lt op ld Inr True] load_loop_done [OF dn] by simp
        next
          case False
          show ?thesis
            unfolding load_loop_success [OF lt op ld Inr False] by simp
        qed
      qed
    qed
  qed
qed

lemma ingest_part_000_calls:
  "open_calls (trace (snd (ingest_part_000 w inp path st))) =
     open_calls (trace (snd (load_loop w path 0 [] st)))"
  "sleep_calls (trace (snd (ingest_part_000 w inp path st))) =
     sleep_calls (trace (snd (load_loop w path 0 [] st)))"
  "load_calls (trace (snd (ingest_part_000 w inp path st))) =
     load_calls (trace (snd (load_loop w path 0 [] st)))"
  "open_files (snd (ingest_part_000 w inp path st)) = open_files (snd (load_loop w path 0 [] st))"
  by (auto simp: ingest_part_000_def identify_and_tag_frame2 split: prod.splits sum.splits)

lemma ingest_part_000_first_open_fails:
  assumes "os_Open w 0 path = Some e"
  shows "ingest_part_000 w inp path st =
           (Return None (Some (open_error path e)), emit (EvOpen path) st)"
  using assms by (simp add: ingest_part_000_def load_loop_open_fail)

lemma ingest_part_000_second_open_fails:
  assumes "os_Open w 0 path = None"
    and "attempt_tag w 0 = None \<or> attempt_tag w 0 = Some []"
    and "os_Open w (Suc 0) path = Some e"
  shows "fst (ingest_part_000 w inp path st) = Return None (Some (open_error path e))
       \<and> open_calls (trace (snd (ingest_part_000 w inp path st))) = open_calls (trace st) @ [path, path]
       \<and> sleep_calls (trace (snd (ingest_part_000 w inp path st))) = sleep_calls (trace st) @ [1000]"
proof -
  from load_loop_retry [OF _ assms(1,2), of st] obtain st1 where
    s1: "load_loop w path 0 [] st = load_loop w path (Suc 0) [] st1"
      "sleep_calls (trace st1) = sleep_calls (trace st) @ [1000]"
      "open_calls (trace st1) = open_calls (trace st) @ [path]"
    by auto
  have lt: "Suc 0 < 2" by simp
  show ?thesis
    by (simp add: ingest_part_000_def s1 load_loop_open_fail [OF lt assms(3)])
qed

lemma ingest_part_000_retried:
  assumes "os_Open w 0 path = None"
    and "attempt_tag w 0 = None \<or> attempt_tag w 0 = Some []"
  shows "open_calls (trace (snd (ingest_part_000 w inp path st))) = open_calls (trace st) @ [path, path]
       \<and> (\<exists>rest. sleep_calls (trace (snd (ingest_part_000 w inp path st))) =
                   sleep_calls (trace st) @ 1000 # rest)"
proof -
  from load_loop_retry [OF _ assms(1,2), of st] obtain st1 where
    s1: "load_loop w path 0 [] st = load_loop w path (Suc 0) [] st1"
      "sleep_calls (trace st1) = sleep_calls (trace st) @ [1000]"
      "open_calls (trace st1) = open_calls (trace st) @ [path]"
    by auto
  from load_loop_last [of w path "[]" st1] show ?thesis
    unfolding ingest_part_000_calls s1 by auto
qed

text \<open>
  Claim C4, as amended. In \<open>part_000\<close> a file that does not open ends the run on
  whichever attempt it happens: \<open>Build\<close> returns the error of line 93, which wraps the
  cause, and no output, with no sleep and no further attempt after it. The sleep of one
  second and the second attempt follow only a first attempt whose file opened and whose
  ingestion failed.
\<close>
theorem C4_open_failure_is_fatal:
  assumes "fst (build_nix w inp (init h)) = Inr path"
  shows "(\<forall>e. os_Open w 0 path = Some e \<longrightarrow>
            fst (Build Part_000 w inp h) = Return None (Some (open_error path e))
            \<and> open_calls (trace (snd (Build Part_000 w inp h))) = [path]
            \<and> sleep_calls (trace (snd (Build Part_000 w inp h))) = []
            \<and> load_calls (trace (snd (Build Part_000 w inp h))) = [])
       \<and> (\<forall>e. os_Open w 0 path = None
              \<and> (attempt_tag w 0 = None \<or> attempt_tag w 0 = Some [])
              \<and> os_Open w 1 path = Some e \<longrightarrow>
            fst (Build Part_000 w inp h) = Return None (Some (open_error path e))
            \<and> open_calls (trace (snd (Build Part_000 w inp h))) = [path, path]
            \<and> sleep_calls (trace (snd (Build Part_000 w inp h))) = [1000])
       \<and> (os_Open w 0 path = None \<and> (attempt_tag w 0 = None \<or> attempt_tag w 0 = Some []) \<longrightarrow>
            open_calls (trace (snd (Build Part_000 w inp h))) = [path, path]
            \<and> (\<exists>rest. sleep_calls (trace (snd (Build Part_000 w inp h))) = 1000 # rest))"
proof (intro conjI allI impI)
  fix e assume "os_Open w 0 path = Some e"
  then show "fst (Build Part_000 w inp h) = Return None (Some (open_error path e))"
    and "open_calls (trace (snd (Build Part_000 w inp h))) = [path]"
    and "sleep_calls (trace (snd (Build Part_000 w inp h))) = []"
    and "load_calls (trace (snd (Build Part_000 w inp h))) = []"
    unfolding Build_part_000_fst [OF assms]
    by (simp_all add: ingest_part_000_first_open_fails build_nix_snd_init)
next
  fix e assume "os_Open w 0 path = None
              \<and> (attempt_tag w 0 = None \<or> attempt_tag w 0 = Some [])
              \<and> os_Open w 1 path = Some e"
  then have a: "os_Open w 0 path = None" "attempt_tag w 0 = None \<or> attempt_tag w 0 = Some []"
    "os_Open w (Suc 0) path = Some e" by simp_all
  from ingest_part_000_second_open_fails [OF a, of inp "snd (build_nix w inp (init h))"]
  show "fst (Build Part_000 w inp h) = Return None (Some (open_error path e))"
    and "open_calls (trace (snd (Build Part_000 w inp h))) = [path, path]"
    and "sleep_calls (trace (snd (Build Part_000 w inp h))) = [1000]"
    unfolding Build_part_000_fst [OF assms] by (simp_all add: build_nix_snd_init)
next
  assume "os_Open w 0 path = None \<and> (attempt_tag w 0 = None \<or> attempt_tag w 0 = Some [])"
  then have a: "os_Open w 0 path = None" "attempt_tag w 0 = None \<or> attempt_tag w 0 = Some []"
    by simp_all
  from ingest_part_000_retried [OF a, of inp "snd (build_nix w inp (init h))"]
  show "open_calls (trace (snd (Build Part_000 w inp h))) = [path, path]"
    and "\<exists>rest. sleep_calls (trace (snd (Build Part_000 w inp h))) = 1000 # rest"
    unfolding Build_part_000_fst [OF assms] by (simp_all add: build_nix_snd_init)
qed


theorem C4_open_failure_is_fatal_witness:
  "fst (build_nix (world0\<lparr>os_Open := \<lambda>i p. if i = 0 then Some (ErrorString ''no such file or directory'') else None\<rparr>)
          in0 (init heap0)) = Inr ''/nix/store/abc.tar''
   \<and> fst (Build Part_000 (world0\<lparr>os_Open := \<lambda>i p. if i = 0 then Some (ErrorString ''no such file or directory'') else None\<rparr>)
          in0 heap0)
       = Return None (Some (open_error ''/nix/store/abc.tar'' (ErrorString ''no such file or directory'')))
   \<and> sleep_calls (trace (snd (Build Part_000 (world0\<lparr>os_Open := \<lambda>i p. if i = 0 then Some (ErrorString ''no such file or directory'') else None\<rparr>)
          in0 heap0))) = []
   \<and> fst (build_nix world0 in0 (init heap0)) = Inr ''/nix/store/abc.tar''
   \<and> os_Open world0 0 ''/nix/store/abc.tar'' = None \<and> attempt_tag world0 0 = None
   \<and> open_calls (trace (snd (Build Part_000 world0 in0 heap0)))
       = [''/nix/store/abc.tar'', ''/nix/store/abc.tar'']"
proof -
  let ?w = "world0\<lparr>os_Open := \<lambda>i p. if i = 0 then Some (ErrorString ''no such file or directory'') else None\<rparr>"
  have b: "fst (build_nix ?w in0 (init heap0)) = Inr ''/nix/store/abc.tar''"
    by (simp add: build_nix_def world0_def in0_def heap0_def cfg0_def fill_default_configs_def
      spawn_nix_build_def Let_def target_def nix_argv_def TrimRight_def crlf_def)
  have op0: "os_Open world0 j x = None" for j x by (simp add: world0_def)
  from C4_open_failure_is_fatal [OF b] C4_open_failure_is_fatal [OF build_nix_world0']
  show ?thesis by (simp add: b build_nix_world0' op0 attempt_tag_world0)
qed

theorem C4_open_failure_retried_counterexample:
  "os_Open (world0\<lparr>os_Open := \<lambda>i p. if i = 0 then Some (ErrorString ''no such file or directory'') else None,
                     ImageLoad := \<lambda>i f. Inr ''body''\<rparr>) 1 ''/nix/store/abc.tar'' = None
   \<and> trace (snd (Build Part_000
         (world0\<lparr>os_Open := \<lambda>i p. if i = 0 then Some (ErrorString ''no such file or directory'') else None,
                  ImageLoad := \<lambda>i f. Inr ''body''\<rparr>) in0 heap0))
       = [EvNewClient,
          EvInfow ''nix build'' [(''target'', ''/plans/mytest#legacyPackages.x86_64-linux.mytest-image'')],
          EvExec [''nix'', ''build'', ''/plans/mytest#legacyPackages.x86_64-linux.mytest-image'',
                  ''--no-link'', ''--print-out-paths''],
          EvInfow ''nix build completed'' [(''path'', ''/nix/store/abc.tar'')],
          EvOpen ''/nix/store/abc.tar'']
   \<and> fst (Build Part_000
         (world0\<lparr>os_Open := \<lambda>i p. if i = 0 then Some (ErrorString ''no such file or directory'') else None,
                  ImageLoad := \<lambda>i f. Inr ''body''\<rparr>) in0 heap0)
       = Return None (Some (WrapError
           ''couldnt open tarball: /nix/store/abc.tar, no such file or directory''
           (ErrorString ''no such file or directory'')))"
proof -
  let ?w = "world0\<lparr>os_Open := \<lambda>i p. if i = 0 then Some (ErrorString ''no such file or directory'') else None,
                     ImageLoad := \<lambda>i f. Inr ''body''\<rparr>"
  have a: "os_Open ?w 1 ''/nix/store/abc.tar'' = None" by simp
  have b: "trace (snd (Build Part_000 ?w in0 heap0))
       = [EvNewClient,
          EvInfow ''nix build'' [(''target'', ''/plans/mytest#legacyPackages.x86_64-linux.mytest-image'')],
          EvExec [''nix'', ''build'', ''/plans/mytest#legacyPackages.x86_64-linux.mytest-image'',
                  ''--no-link'', ''--print-out-paths''],
          EvInfow ''nix build completed'' [(''path'', ''/nix/store/abc.tar'')],
          EvOpen ''/nix/store/abc.tar'']"
    by code_simp
  have c: "fst (Build Part_000 ?w in0 heap0)
       = Return None (Some (WrapError
           ''couldnt open tarball: /nix/store/abc.tar, no such file or directory''
           (ErrorString ''no such file or directory'')))"
    by code_simp
  from a b c show ?thesis by simp
qed

lemma TrimRight_Nil: "TrimRight s cs = [] \<longleftrightarrow> (\<forall>c\<in>set s. c \<in> set cs)"
  by (simp add: TrimRight_def dropWhile_eq_Nil_conv)

lemma defaultTag_of_unfold:
  "defaultTag_of rsp =
     TrimRight (if HasPrefix rsp ''Loaded image: '' then drop 14 rsp else rsp) crlf"
proof -
  have "length ''Loaded image: '' = 14" by simp
  then show ?thesis unfolding defaultTag_of_def TrimPrefix_def by (simp only: if_distrib)
qed

lemma Build_part_000_first_try:
  assumes "fst (build_nix w inp (init h)) = Inr path"
    and "os_Open w 0 path = None" and "attempt_tag w 0 = Some T" and "T \<noteq> []"
  shows "lookup_calls (trace (snd (Build Part_000 w inp h))) = [T]
       \<and> sleep_calls (trace (snd (Build Part_000 w inp h))) = []
       \<and> open_calls (trace (snd (Build Part_000 w inp h))) = [path]"
proof -
  let ?st1 = "snd (build_nix w inp (init h))"
  from load_loop_stop [OF _ assms(2,3,4), of "[]" ?st1] obtain st2 where
    ll: "load_loop w path 0 [] ?st1 = (Inr T, st2)"
    and s: "sleep_calls (trace st2) = []" "open_calls (trace st2) = [path]"
    by (auto simp: build_nix_snd_init)
  from load_loop_frame [OF ll] have "lookup_calls (trace st2) = []"
    by (simp add: build_nix_snd_init)
  then show ?thesis
    unfolding Build_part_000_fst [OF assms(1)] ingest_part_000_stop [OF ll assms(4)]
    by (simp add: identify_and_tag_calls identify_and_tag_frame2 s)
qed

text \<open>
  Claim C2, as amended. Let the first attempt have read the response \<open>rsp\<close>. The tag is
  \<open>rsp\<close> without one leading \<open>Loaded image: \<close>, when it is there, and without its
  trailing carriage returns and line feeds; the prefix is not required. When that tag is
  not empty, which is when some character of \<open>rsp\<close> after the optional prefix is neither
  of the two, the attempt is a success in both files: the identifier asked for is that
  of the tag, and \<open>part_000\<close> makes no second attempt. When it is empty, \<open>part_000\<close>
  sleeps one second and opens the file again.
\<close>
theorem C2_attempt_success:
  assumes "fst (build_nix w inp (init h)) = Inr path"
    and "os_Open w 0 path = None" and "ImageLoad w 0 0 = Inr body"
    and "PipeOutput w 0 body = Inr rsp"
  shows "defaultTag_of rsp =
           TrimRight (if HasPrefix rsp ''Loaded image: '' then drop 14 rsp else rsp) crlf
       \<and> ((defaultTag_of rsp \<noteq> []) =
            (\<exists>c \<in> set (if HasPrefix rsp ''Loaded image: '' then drop 14 rsp else rsp).
               c \<noteq> CHR 0x0D \<and> c \<noteq> CHR 0x0A))
       \<and> (defaultTag_of rsp \<noteq> [] \<longrightarrow>
            lookup_calls (trace (snd (Build v w inp h))) = [defaultTag_of rsp]
            \<and> sleep_calls (trace (snd (Build Part_000 w inp h))) = []
            \<and> open_calls (trace (snd (Build Part_000 w inp h))) = [path])
       \<and> (defaultTag_of rsp = [] \<longrightarrow>
            open_calls (trace (snd (Build Part_000 w inp h))) = [path, path]
            \<and> (\<exists>rest. sleep_calls (trace (snd (Build Part_000 w inp h))) = 1000 # rest))"
proof (intro conjI impI)
  show "defaultTag_of rsp =
           TrimRight (if HasPrefix rsp ''Loaded image: '' then drop 14 rsp else rsp) crlf"
    by (rule defaultTag_of_unfold)
  show "(defaultTag_of rsp \<noteq> []) =
            (\<exists>c \<in> set (if HasPrefix rsp ''Loaded image: '' then drop 14 rsp else rsp).
               c \<noteq> CHR 0x0D \<and> c \<noteq> CHR 0x0A)"
    unfolding defaultTag_of_unfold TrimRight_Nil by (simp add: crlf_def)
  have at: "attempt_tag w 0 = Some (defaultTag_of rsp)"
    using assms(3,4) by (simp add: attempt_tag_def)
  {
    assume ne: "defaultTag_of rsp \<noteq> []"
    note p = Build_part_000_first_try [OF assms(1,2) at ne]
    from p show "sleep_calls (trace (snd (Build Part_000 w inp h))) = []"
      and "open_calls (trace (snd (Build Part_000 w inp h))) = [path]" by simp_all
    have "identified w inp (defaultTag_of rsp) rsp (Build Docker_nix_go w inp h)"
      unfolding Build_docker_nix_fst [OF assms(1)]
      by (intro ingest_docker_nix_identified [OF assms(2,3,4)] build_nix_snd_init)
    from identified_explicit [OF this] p
    show "lookup_calls (trace (snd (Build v w inp h))) = [defaultTag_of rsp]"
      by (cases v) simp_all
  }
  {
    assume "defaultTag_of rsp = []"
    with at have a: "attempt_tag w 0 = None \<or> attempt_tag w 0 = Some []" by simp
    from ingest_part_000_retried [OF assms(2) a, of inp "snd (build_nix w inp (init h))"]
    show "open_calls (trace (snd (Build Part_000 w inp h))) = [path, path]"
      and "\<exists>rest. sleep_calls (trace (snd (Build Part_000 w inp h))) = 1000 # rest"
      unfolding Build_part_000_fst [OF assms(1)] by (simp_all add: build_nix_snd_init)
  }
qed

theorem C2_attempt_success_witness:
  "fst (build_nix (world0\<lparr>ImageLoad := \<lambda>i f. Inr ''body''\<rparr>) in0 (init heap0)) = Inr ''/nix/store/abc.tar''
   \<and> os_Open (world0\<lparr>ImageLoad := \<lambda>i f. Inr ''body''\<rparr>) 0 ''/nix/store/abc.tar'' = None
   \<and> PipeOutput (world0\<lparr>ImageLoad := \<lambda>i f. Inr ''body''\<rparr>) 0 ''body''
        = Inr (''Loaded image: myimg:latest'' @ crlf)
   \<and> defaultTag_of (''Loaded image: myimg:latest'' @ crlf) = ''myimg:latest''
   \<and> lookup_calls (trace (snd (Build Docker_nix_go (world0\<lparr>ImageLoad := \<lambda>i f. Inr ''body''\<rparr>) in0 heap0)))
        = [''myimg:latest'']
   \<and> lookup_calls (trace (snd (Build Part_000 (world0\<lparr>ImageLoad := \<lambda>i f. Inr ''body''\<rparr>) in0 heap0)))
        = [''myimg:latest'']
   \<and> sleep_calls (trace (snd (Build Part_000 (world0\<lparr>ImageLoad := \<lambda>i f. Inr ''body''\<rparr>) in0 heap0))) = []
   \<and> defaultTag_of (''Loaded image: '' @ crlf) = []
   \<and> open_calls (trace (snd (Build Part_000
         (world0\<lparr>ImageLoad := \<lambda>i f. Inr ''body'', PipeOutput := \<lambda>i b. Inr (''Loaded image: '' @ crlf)\<rparr>)
         in0 heap0))) = [''/nix/store/abc.tar'', ''/nix/store/abc.tar'']"
proof -
  let ?w = "world0\<lparr>ImageLoad := \<lambda>i f. Inr ''body''\<rparr>"
  let ?u = "world0\<lparr>ImageLoad := \<lambda>i f. Inr ''body'', PipeOutput := \<lambda>i b. Inr (''Loaded image: '' @ crlf)\<rparr>"
  have b: "fst (build_nix ?w in0 (init heap0)) = Inr ''/nix/store/abc.tar''"
    by (simp add: build_nix_def world0_def in0_def heap0_def cfg0_def fill_default_configs_def
      spawn_nix_build_def Let_def target_def nix_argv_def TrimRight_def crlf_def)
  have b': "fst (build_nix ?u in0 (init heap0)) = Inr ''/nix/store/abc.tar''"
    by (simp add: build_nix_def world0_def in0_def heap0_def cfg0_def fill_default_configs_def
      spawn_nix_build_def Let_def target_def nix_argv_def TrimRight_def crlf_def)
  have op: "os_Open ?w 0 ''/nix/store/abc.tar'' = None" "os_Open ?u 0 ''/nix/store/abc.tar'' = None"
    by (simp_all add: world0_def)
  have ld: "ImageLoad ?w 0 0 = Inr ''body''" "ImageLoad ?u 0 0 = Inr ''body''" by simp_all
  have pp: "PipeOutput ?w 0 ''body'' = Inr (''Loaded image: myimg:latest'' @ crlf)"
    by (simp add: world0_def)
  have pp': "PipeOutput ?u 0 ''body'' = Inr (''Loaded image: '' @ crlf)" by simp
  have d: "defaultTag_of (''Loaded image: myimg:latest'' @ crlf) = ''myimg:latest''"
    by (simp add: defaultTag_of_def TrimPrefix_def HasPrefix_def TrimRight_def crlf_def)
  have d': "defaultTag_of (''Loaded image: '' @ crlf) = []"
    by (simp add: defaultTag_of_def TrimPrefix_def HasPrefix_def TrimRight_def crlf_def)
  note t1 = C2_attempt_success [OF b op(1) ld(1) pp, of Docker_nix_go, unfolded d]
  note t2 = C2_attempt_success [OF b op(1) ld(1) pp, of Part_000, unfolded d]
  note t3 = C2_attempt_success [OF b' op(2) ld(2) pp', of Part_000, unfolded d']
  from t1 have r1: "lookup_calls (trace (snd (Build Docker_nix_go ?w in0 heap0))) = [''myimg:latest'']"
    by simp
  from t2 have r2: "lookup_calls (trace (snd (Build Part_000 ?w in0 heap0))) = [''myimg:latest'']"
    "sleep_calls (trace (snd (Build Part_000 ?w in0 heap0))) = []"
    by simp_all
  from t3 have r3: "open_calls (trace (snd (Build Part_000 ?u in0 heap0)))
      = [''/nix/store/abc.tar'', ''/nix/store/abc.tar'']"
    by simp
  from b op(1) pp d d' r1 r2 r3 show ?thesis by (intro conjI)
qed

theorem C2_prefix_not_required_counterexample:
  "\<not> HasPrefix (''myimg:latest'' @ [CHR 0x0A]) ''Loaded image: ''
   \<and> lookup_calls (trace (snd (Build Part_000
         (world0\<lparr>ImageLoad := \<lambda>i f. Inr ''body'', PipeOutput := \<lambda>i b. Inr (''myimg:latest'' @ [CHR 0x0A])\<rparr>)
         in0 heap0))) = [''myimg:latest'']
   \<and> fst (Build Part_000
         (world0\<lparr>ImageLoad := \<lambda>i f. Inr ''body'', PipeOutput := \<lambda>i b. Inr (''myimg:latest'' @ [CHR 0x0A])\<rparr>)
         in0 heap0) = Return (Some \<lparr>ArtifactPath = ''sha256:deadbeef''\<rparr>) None
   \<and> fst (Build Docker_nix_go
         (world0\<lparr>ImageLoad := \<lambda>i f. Inr ''body'', PipeOutput := \<lambda>i b. Inr (''myimg:latest'' @ [CHR 0x0A])\<rparr>)
         in0 heap0) = Return (Some \<lparr>ArtifactPath = ''sha256:deadbeef''\<rparr>) None
   \<and> HasPrefix (''Loaded image: '' @ crlf) ''Loaded image: ''
   \<and> fst (Build Part_000
         (world0\<lparr>ImageLoad := \<lambda>i f. Inr ''body'', PipeOutput := \<lambda>i b. Inr (''Loaded image: '' @ crlf)\<rparr>)
         in0 heap0) = Return None (Some (ErrorString ''fail to load docker image''))"
proof -
  have a: "\<not> HasPrefix (''myimg:latest'' @ [CHR 0x0A]) ''Loaded image: ''"
    by (simp add: HasPrefix_def)
  have b: "lookup_calls (trace (snd (Build Part_000
         (world0\<lparr>ImageLoad := \<lambda>i f. Inr ''body'', PipeOutput := \<lambda>i b. Inr (''myimg:latest'' @ [CHR 0x0A])\<rparr>)
         in0 heap0))) = [''myimg:latest'']"
    by code_simp
  have c: "fst (Build Part_000
         (world0\<lparr>ImageLoad := \<lambda>i f. Inr ''body'', PipeOutput := \<lambda>i b. Inr (''myimg:latest'' @ [CHR 0x0A])\<rparr>)
         in0 heap0) = Return (Some \<lparr>ArtifactPath = ''sha256:deadbeef''\<rparr>) None"
    by code_simp
  have d: "fst (Build Docker_nix_go
         (world0\<lparr>ImageLoad := \<lambda>i f. Inr ''body'', PipeOutput := \<lambda>i b. Inr (''myimg:latest'' @ [CHR 0x0A])\<rparr>)
         in0 heap0) = Return (Some \<lparr>ArtifactPath = ''sha256:deadbeef''\<rparr>) None"
    by code_simp
  have e: "HasPrefix (''Loaded image: '' @ crlf) ''Loaded image: ''"
    by (simp add: HasPrefix_def)
  have f: "fst (Build Part_000
         (world0\<lparr>ImageLoad := \<lambda>i f. Inr ''body'', PipeOutput := \<lambda>i b. Inr (''Loaded image: '' @ crlf)\<rparr>)
         in0 heap0) = Return None (Some (ErrorString ''fail to load docker image''))"
    by code_simp
  from a b c d e f show ?thesis by (intro conjI)
qed

lemma Build_docker_nix_closes:
  "open_files (snd (Build Docker_nix_go w inp h)) = []"
proof (cases "build_nix w inp (init h)")
  case (Pair r st1)
  note i = build_nix_init [OF Pair]
  show ?thesis
  proof (cases r)
    case (Inl x)
    with Pair i show ?thesis by (simp add: Build_docker_nix_Inl)
  next
    case (Inr path)
    with Pair i ingest_docker_nix_frame [of w inp path st1] show ?thesis
      by (simp add: Build_docker_nix_Inr)
  qed
qed

lemma Build_part_000_never_closes:
  "close_calls (trace (snd (Build Part_000 w inp h))) = []"
proof (cases "build_nix w inp (init h)")
  case (Pair r st1)
  note i = build_nix_init [OF Pair]
  show ?thesis
  proof (cases r)
    case (Inl x)
    with Pair i show ?thesis by (simp add: Build_part_000_Inl)
  next
    case (Inr path)
    with Pair i ingest_part_000_frame [of w inp path st1] show ?thesis
      by (simp add: Build_part_000_Inr)
  qed
qed

text \<open>
  Claim C10 at the run of the section above, in \<open>part_000\<close>: the file is opened twice,
  \<open>Close\<close> is never called, and both handles are open when \<open>Build\<close> returns its output
  (\<open>docker_nix.go\<close> defers the \<open>Close\<close>: lemma \<open>Build_docker_nix_closes\<close>).
\<close>
theorem C10_part_000_leaves_files_open:
  "fst (Build Part_000 world0 in0 heap0) = Return (Some \<lparr>ArtifactPath = ''sha256:deadbeef''\<rparr>) None
   \<and> open_calls (trace (snd (Build Part_000 world0 in0 heap0)))
       = [''/nix/store/abc.tar'', ''/nix/store/abc.tar'']
   \<and> close_calls (trace (snd (Build Part_000 world0 in0 heap0))) = []
   \<and> open_files (snd (Build Part_000 world0 in0 heap0)) = [0, 1]"
proof -
  have a: "fst (Build Part_000 world0 in0 heap0) = Return (Some \<lparr>ArtifactPath = ''sha256:deadbeef''\<rparr>) None"
    by code_simp
  have b: "open_calls (trace (snd (Build Part_000 world0 in0 heap0)))
       = [''/nix/store/abc.tar'', ''/nix/store/abc.tar'']"
    by code_simp
  have c: "close_calls (trace (snd (Build Part_000 world0 in0 heap0))) = []"
    by code_simp
  have d: "open_files (snd (Build Part_000 world0 in0 heap0)) = [0, 1]"
    by code_simp
  from a b c d show ?thesis by (intro conjI)
qed

end
